theory Spec2Isabelle
  imports Main "HOL-Library.Word"
begin

section \<open>JavaScript values\<close>

text \<open>
  A JavaScript string is a sequence of UTF-16 code units. \<open>js\<close> turns an ASCII literal
  of the source into one. A field of an event payload that may be missing
  (\<^verbatim>\<open>undefined\<close> or \<^verbatim>\<open>null\<close>) is a \<open>js_string option\<close>. A value is falsy when it is
  missing or the empty string, so \<^verbatim>\<open>!v\<close> is \<open>\<not> truthy v\<close>, \<^verbatim>\<open>v || d\<close> is
  \<open>or_default v d\<close> and \<^verbatim>\<open>v || null\<close> is \<open>or_null v\<close>.
\<close>

type_synonym code_unit = "16 word"

type_synonym js_string = "code_unit list"

definition js :: "string \<Rightarrow> js_string" where
  "js s = map (\<lambda>c. of_nat (of_char c)) s"

definition truthy :: "js_string option \<Rightarrow> bool" where
  "truthy v = (case v of None \<Rightarrow> False | Some s \<Rightarrow> s \<noteq> [])"

definition or_default :: "js_string option \<Rightarrow> js_string \<Rightarrow> js_string" where
  "or_default v d = (case v of None \<Rightarrow> d | Some s \<Rightarrow> if s = [] then d else s)"

definition or_null :: "js_string option \<Rightarrow> js_string option" where
  "or_null v = (if truthy v then v else None)"

text \<open>
  The white space of \<^verbatim>\<open>String.prototype.trim\<close> and of the regular expression class
  \<^verbatim>\<open>\s\<close>: tab, line feed, vertical tab, form feed, carriage return, blank, U+00A0,
  U+1680, U+2000 to U+200A, the line and paragraph separators U+2028 and U+2029, U+202F,
  U+205F, U+3000 and the byte order mark U+FEFF.
\<close>

definition is_space :: "code_unit \<Rightarrow> bool" where
  "is_space c = (c \<in> set [0x09, 0x0A, 0x0B, 0x0C, 0x0D, 0x20, 0xA0, 0x1680,
     0x2000, 0x2001, 0x2002, 0x2003, 0x2004, 0x2005, 0x2006, 0x2007, 0x2008, 0x2009, 0x200A,
     0x2028, 0x2029, 0x202F, 0x205F, 0x3000, 0xFEFF])"

definition trim :: "js_string \<Rightarrow> js_string" where
  "trim s = rev (dropWhile is_space (rev (dropWhile is_space s)))"

definition startsWith :: "js_string \<Rightarrow> js_string \<Rightarrow> bool" where
  "startsWith s p = (take (length p) s = p)"

text \<open>\<^verbatim>\<open>s.replace(pat, rep)\<close> with a string pattern replaces the first occurrence only.\<close>

fun replace_first :: "js_string \<Rightarrow> js_string \<Rightarrow> js_string \<Rightarrow> js_string" where
  "replace_first pat rep [] = (if pat = [] then rep else [])"
| "replace_first pat rep (c # cs) =
     (if startsWith (c # cs) pat then rep @ drop (length pat) (c # cs)
      else c # replace_first pat rep cs)"


section \<open>The persistence layer: models/ChatSession, models/Message\<close>

datatype status = Active | Inactive | Closed

datatype sender_type = User | Admin

record chat_session =
  cs_id :: nat
  cs_sessionId :: js_string
  cs_userIp :: "js_string option"
  cs_userAgent :: "js_string option"
  cs_status :: status
  cs_aiEnabled :: bool
  cs_createdAt :: nat
  cs_updatedAt :: nat

record message_row =
  msg_id :: nat
  msg_sessionId :: js_string
  msg_message :: js_string
  msg_sender :: js_string
  msg_senderType :: sender_type
  msg_isAi :: bool
  msg_attachmentUrl :: "js_string option"
  msg_attachmentType :: "js_string option"
  msg_createdAt :: nat

text \<open>
  What a handler does that is visible outside it, in the order it happens: a row written
  to the messages table, and an event emitted to one socket or to a room. Event names and
  error texts are constants of the program and stay literals.
\<close>

record message_data =
  md_sessionId :: js_string
  md_message :: js_string
  md_sender :: js_string
  md_senderType :: sender_type
  md_isAi :: bool
  md_attachmentUrl :: "js_string option"
  md_attachmentType :: "js_string option"
  md_timestamp :: nat

datatype payload =
    NoPayload
  | SessionIdOnly js_string
  | ErrorMessage string
  | MessageData message_data

datatype target = ToSocket js_string | ToRoom js_string

datatype effect = Persisted message_row | Emitted target string payload

text \<open>
  The state: the two tables, the adapter's room membership as pairs (socket id, room),
  and the trace of effects so far. \<^verbatim>\<open>socket.rooms\<close> and \<^verbatim>\<open>io.in(room).fetchSockets()\<close>
  are the two views of the one membership relation.
\<close>

record state =
  sessions :: "chat_session list"
  messages :: "message_row list"
  rooms :: "(js_string \<times> js_string) list"
  trace :: "effect list"

definition init :: state where
  "init = \<lparr>sessions = [], messages = [], rooms = [], trace = []\<rparr>"

datatype db_error = ValidationError | DatabaseError | NotFound

subsection \<open>Validators\<close>

text \<open>
  The validators the models declare. \<^verbatim>\<open>notEmpty\<close> rejects a string that consists of white
  space only (the empty one too). \<^verbatim>\<open>len: [lo, hi]\<close> is the library's \<^verbatim>\<open>isLength\<close>: it
  counts code units, a surrogate pair once, and leaves out the variation selectors U+FE0E
  and U+FE0F.
\<close>

definition notEmpty :: "js_string \<Rightarrow> bool" where
  "notEmpty s = (\<not> list_all is_space s)"

definition is_high :: "code_unit \<Rightarrow> bool" where
  "is_high c = (0xD800 \<le> c \<and> c \<le> 0xDBFF)"

definition is_low :: "code_unit \<Rightarrow> bool" where
  "is_low c = (0xDC00 \<le> c \<and> c \<le> 0xDFFF)"

fun surrogate_pairs :: "js_string \<Rightarrow> nat" where
  "surrogate_pairs (c # d # cs) =
     (if is_high c \<and> is_low d then Suc (surrogate_pairs cs) else surrogate_pairs (d # cs))"
| "surrogate_pairs cs = 0"

definition is_selector :: "code_unit \<Rightarrow> bool" where
  "is_selector c = (c = 0xFE0E \<or> c = 0xFE0F)"

definition isLength :: "js_string \<Rightarrow> nat" where
  "isLength s = length s - length (filter is_selector s) - surrogate_pairs s"

definition len :: "nat \<Rightarrow> nat \<Rightarrow> js_string \<Rightarrow> bool" where
  "len lo hi s = (lo \<le> isLength s \<and> isLength s \<le> hi)"

subsection \<open>Text in a column\<close>

text \<open>
  A \<^verbatim>\<open>STRING(n)\<close> column of the configured PostgreSQL database holds at most \<open>n\<close>
  characters, a surrogate pair being one character. A wider value whose excess consists
  of blanks is cut to \<open>n\<close> characters and stored; any other wider value is refused.
\<close>

definition chars :: "js_string \<Rightarrow> nat" where
  "chars s = length s - surrogate_pairs s"

definition without_trailing_blanks :: "js_string \<Rightarrow> js_string" where
  "without_trailing_blanks s = rev (dropWhile (\<lambda>c. c = 0x20) (rev s))"

definition varchar_accepts :: "nat \<Rightarrow> js_string \<Rightarrow> bool" where
  "varchar_accepts n s = (chars s \<le> n \<or> chars (without_trailing_blanks s) \<le> n)"

definition varchar_value :: "nat \<Rightarrow> js_string \<Rightarrow> js_string" where
  "varchar_value n s =
     (if chars s \<le> n then s
      else without_trailing_blanks s @ replicate (n - chars (without_trailing_blanks s)) 0x20)"

definition find_session :: "js_string \<Rightarrow> state \<Rightarrow> chat_session option" where
  "find_session sid st = find (\<lambda>r. cs_sessionId r = sid) (sessions st)"

definition status_of :: "js_string \<Rightarrow> state \<Rightarrow> status option" where
  "status_of sid st = map_option cs_status (find_session sid st)"

text \<open>
  \<^verbatim>\<open>instance.update(values)\<close> writes the instance that \<^verbatim>\<open>findOne\<close> returned back to its
  row: the first row that matches. The row's \<^verbatim>\<open>updatedAt\<close> moves only when a value changed.
\<close>

fun update_found :: "('a \<Rightarrow> bool) \<Rightarrow> ('a \<Rightarrow> 'a) \<Rightarrow> 'a list \<Rightarrow> 'a list" where
  "update_found P f [] = []"
| "update_found P f (r # rs) = (if P r then f r # rs else r # update_found P f rs)"

definition instance_update :: "nat \<Rightarrow> (chat_session \<Rightarrow> chat_session) \<Rightarrow> chat_session \<Rightarrow> chat_session" where
  "instance_update now f r = (if f r = r then r else (f r)\<lparr>cs_updatedAt := now\<rparr>)"

subsection \<open>services/chatService: sessions\<close>

text \<open>
  The texts of a session (id, caller address, user agent) are stored as they are given,
  which is what the database does with plain text: text without NUL and without a
  surrogate that lacks its partner. A session id of more than 255 code units is refused.
\<close>

record session_data =
  sd_sessionId :: js_string
  sd_userIp :: "js_string option"
  sd_userAgent :: "js_string option"
  sd_status :: "status option"

definition address_accepted :: "js_string option \<Rightarrow> bool" where
  "address_accepted v = (case v of None \<Rightarrow> True | Some s \<Rightarrow> varchar_accepts 45 s)"

definition session_accepted :: "session_data \<Rightarrow> bool" where
  "session_accepted sd =
     (notEmpty (sd_sessionId sd) \<and> length (sd_sessionId sd) \<le> 255 \<and>
      address_accepted (or_null (sd_userIp sd)))"

definition createOrUpdateSession ::
  "session_data \<Rightarrow> nat \<Rightarrow> state \<Rightarrow> db_error + (chat_session \<times> state)" where
  "createOrUpdateSession sd now st =
     (let status = (case sd_status sd of None \<Rightarrow> Active | Some s \<Rightarrow> s) in
      case find_session (sd_sessionId sd) st of
        None \<Rightarrow>
          if \<not> notEmpty (sd_sessionId sd) then Inl ValidationError
          else if \<not> session_accepted sd then Inl DatabaseError
          else
            let row = \<lparr>cs_id = Suc (length (sessions st)),
                       cs_sessionId = sd_sessionId sd,
                       cs_userIp = map_option (varchar_value 45) (or_null (sd_userIp sd)),
                       cs_userAgent = or_null (sd_userAgent sd),
                       cs_status = status,
                       cs_aiEnabled = False,
                       cs_createdAt = now,
                       cs_updatedAt = now\<rparr>
            in Inr (row, st\<lparr>sessions := sessions st @ [row]\<rparr>)
      | Some session \<Rightarrow>
          let userIp = (if truthy (sd_userIp sd) then sd_userIp sd else cs_userIp session);
              userAgent = (if truthy (sd_userAgent sd) then sd_userAgent sd else cs_userAgent session);
              upd = instance_update now
                      (\<lambda>r. r\<lparr>cs_status := status,
                              cs_userIp := map_option (varchar_value 45) userIp,
                              cs_userAgent := userAgent\<rparr>)
          in if \<not> address_accepted userIp then Inl DatabaseError
             else Inr (upd session,
                       st\<lparr>sessions :=
                            update_found (\<lambda>r. cs_sessionId r = sd_sessionId sd) upd (sessions st)\<rparr>))"

definition updateSessionStatus ::
  "js_string \<Rightarrow> status \<Rightarrow> nat \<Rightarrow> state \<Rightarrow> db_error + (chat_session \<times> state)" where
  "updateSessionStatus sessionId status now st =
     (case find_session sessionId st of
        None \<Rightarrow> Inl NotFound
      | Some session \<Rightarrow>
          let upd = instance_update now (\<lambda>r. r\<lparr>cs_status := status\<rparr>)
          in Inr (upd session,
                  st\<lparr>sessions := update_found (\<lambda>r. cs_sessionId r = sessionId) upd (sessions st)\<rparr>))"

definition getSession :: "js_string \<Rightarrow> state \<Rightarrow> chat_session option" where
  "getSession sessionId st = find_session sessionId st"

subsection \<open>services/chatService: messages\<close>

record message_input =
  mi_sessionId :: js_string
  mi_message :: js_string
  mi_sender :: js_string
  mi_senderType :: sender_type
  mi_isAi :: "bool option"
  mi_attachmentUrl :: "js_string option"
  mi_attachmentType :: "js_string option"

text \<open>
  The text of a message row is the text PostgreSQL returns for the inserted row. On the
  way in, Sequelize hands a NUL in the text over as a backslash and a zero, and the UTF-8
  connection turns a surrogate without its partner into U+FFFD.
\<close>

fun pg_text :: "js_string \<Rightarrow> js_string" where
  "pg_text [] = []"
| "pg_text [c] = (if c = 0 then [0x5C, 0x30] else if is_high c \<or> is_low c then [0xFFFD] else [c])"
| "pg_text (c # d # cs) =
     (if c = 0 then 0x5C # 0x30 # pg_text (d # cs)
      else if is_high c \<and> is_low d then c # d # pg_text cs
      else if is_high c \<or> is_low c then 0xFFFD # pg_text (d # cs)
      else c # pg_text (d # cs))"

definition column_accepts :: "nat \<Rightarrow> js_string option \<Rightarrow> bool" where
  "column_accepts n v = (case v of None \<Rightarrow> True | Some s \<Rightarrow> varchar_accepts n (pg_text s))"

definition column_value :: "nat \<Rightarrow> js_string \<Rightarrow> js_string" where
  "column_value n s = varchar_value n (pg_text s)"

text \<open>
  A row passes the validators of the model, then the column widths, and the database
  takes it only if its session exists (the foreign key on \<^verbatim>\<open>session_id\<close>). Whether
  the insert of a row that passes all this succeeds, and with which primary key and
  creation time, is an input of the model: \<open>Refused\<close> is an insert that fails in the
  database, \<open>Inserted new_id now\<close> one that succeeds.
\<close>

datatype db_verdict = Refused | Inserted nat nat

definition message_valid :: "message_input \<Rightarrow> bool" where
  "message_valid mi =
     (notEmpty (mi_message mi) \<and> len 1 5001 (mi_message mi) \<and>
      notEmpty (mi_sender mi) \<and> len 1 50 (mi_sender mi))"

definition columns_accept :: "message_input \<Rightarrow> bool" where
  "columns_accept mi =
     (column_accepts 255 (Some (mi_sessionId mi)) \<and>
      column_accepts 50 (Some (mi_sender mi)) \<and>
      column_accepts 1024 (or_null (mi_attachmentUrl mi)) \<and>
      column_accepts 100 (or_null (mi_attachmentType mi)))"

definition references_session :: "message_input \<Rightarrow> state \<Rightarrow> bool" where
  "references_session mi st = (find_session (column_value 255 (mi_sessionId mi)) st \<noteq> None)"

definition message_accepted :: "message_input \<Rightarrow> state \<Rightarrow> bool" where
  "message_accepted mi st = (message_valid mi \<and> columns_accept mi \<and> references_session mi st)"

definition build_message :: "message_input \<Rightarrow> nat \<Rightarrow> nat \<Rightarrow> message_row" where
  "build_message mi new_id now =
     \<lparr>msg_id = new_id,
      msg_sessionId = column_value 255 (mi_sessionId mi),
      msg_message = pg_text (mi_message mi),
      msg_sender = column_value 50 (mi_sender mi),
      msg_senderType = mi_senderType mi,
      msg_isAi = (case mi_isAi mi of None \<Rightarrow> False | Some b \<Rightarrow> b),
      msg_attachmentUrl = map_option (column_value 1024) (or_null (mi_attachmentUrl mi)),
      msg_attachmentType = map_option (column_value 100) (or_null (mi_attachmentType mi)),
      msg_createdAt = now\<rparr>"

text \<open>
  After the insert the function calls \<^verbatim>\<open>ChatSession.update\<close> with \<^verbatim>\<open>updatedAt\<close> as the
  only value. Sequelize skips an update that carries nothing but the timestamp, so the
  sessions table stays as it is.
\<close>

definition createMessage ::
  "message_input \<Rightarrow> db_verdict \<Rightarrow> state \<Rightarrow> db_error + (message_row \<times> state)" where
  "createMessage mi verdict st =
     (if \<not> message_valid mi then Inl ValidationError
      else if \<not> (columns_accept mi \<and> references_session mi st) then Inl DatabaseError
      else
        (case verdict of
           Refused \<Rightarrow> Inl DatabaseError
         | Inserted new_id now \<Rightarrow>
             let message = build_message mi new_id now
             in Inr (message,
                     st\<lparr>messages := messages st @ [message],
                        trace := trace st @ [Persisted message]\<rparr>)))"

text \<open>controllers/chatController: the switch of a session's automatic replies.\<close>

definition toggleAiForSession :: "js_string \<Rightarrow> bool \<Rightarrow> nat \<Rightarrow> state \<Rightarrow> state" where
  "toggleAiForSession sessionId enabled now st =
     (case find_session sessionId st of
        None \<Rightarrow> st
      | Some session \<Rightarrow>
          st\<lparr>sessions := update_found (\<lambda>r. cs_sessionId r = sessionId)
                            (instance_update now (\<lambda>r. r\<lparr>cs_aiEnabled := enabled\<rparr>)) (sessions st)\<rparr>)"


section \<open>socket/socket: the event handlers of setupSocketIO\<close>

definition emit :: "target \<Rightarrow> string \<Rightarrow> payload \<Rightarrow> state \<Rightarrow> state" where
  "emit t ev p st = st\<lparr>trace := trace st @ [Emitted t ev p]\<rparr>"

definition session_room :: "js_string \<Rightarrow> js_string" where
  "session_room sessionId = js ''session:'' @ sessionId"

definition socket_join :: "js_string \<Rightarrow> js_string \<Rightarrow> state \<Rightarrow> state" where
  "socket_join c room st =
     (if (c, room) \<in> set (rooms st) then st else st\<lparr>rooms := rooms st @ [(c, room)]\<rparr>)"

definition socket_rooms :: "js_string \<Rightarrow> state \<Rightarrow> js_string list" where
  "socket_rooms c st = map snd (filter (\<lambda>m. fst m = c) (rooms st))"

definition fetchSockets :: "js_string \<Rightarrow> state \<Rightarrow> js_string list" where
  "fetchSockets room st = map fst (filter (\<lambda>m. snd m = room) (rooms st))"

definition leave_all :: "js_string \<Rightarrow> state \<Rightarrow> state" where
  "leave_all c st = st\<lparr>rooms := filter (\<lambda>m. fst m \<noteq> c) (rooms st)\<rparr>"

subsection \<open>user:connect\<close>

record user_connect_data =
  uc_sessionId :: "js_string option"
  uc_userIp :: "js_string option"
  uc_userAgent :: "js_string option"

text \<open>The argument \<open>uuid\<close> is the value \<^verbatim>\<open>uuidv4()\<close> returns when it is called.\<close>

definition user_connect ::
  "js_string \<Rightarrow> user_connect_data \<Rightarrow> js_string \<Rightarrow> nat \<Rightarrow> state \<Rightarrow> state" where
  "user_connect c d uuid now st =
     (let sessionId = or_default (uc_sessionId d) uuid in
      case createOrUpdateSession
             \<lparr>sd_sessionId = sessionId,
              sd_userIp = Some (or_default (uc_userIp d) (js ''unknown'')),
              sd_userAgent = Some (or_default (uc_userAgent d) (js ''unknown'')),
              sd_status = Some Active\<rparr> now st of
        Inl e \<Rightarrow> emit (ToSocket c) ''error'' (ErrorMessage ''Failed to establish connection'') st
      | Inr (session, st1) \<Rightarrow>
          emit (ToSocket c) ''user:connected'' (SessionIdOnly sessionId)
            (socket_join c (session_room sessionId) st1))"

subsection \<open>message:user and message:admin\<close>

record chat_message =
  cm_sessionId :: "js_string option"
  cm_message :: "js_string option"
  cm_sender :: "js_string option"
  cm_attachmentUrl :: "js_string option"
  cm_attachmentType :: "js_string option"

definition message_input_of ::
  "sender_type \<Rightarrow> js_string \<Rightarrow> js_string \<Rightarrow> js_string \<Rightarrow> chat_message \<Rightarrow> message_input" where
  "message_input_of senderType fallback sessionId message d =
     \<lparr>mi_sessionId = sessionId,
      mi_message = trim message,
      mi_sender = or_default (cm_sender d) fallback,
      mi_senderType = senderType,
      mi_isAi = Some False,
      mi_attachmentUrl = cm_attachmentUrl d,
      mi_attachmentType = cm_attachmentType d\<rparr>"

definition messageData :: "sender_type \<Rightarrow> js_string \<Rightarrow> message_row \<Rightarrow> message_data" where
  "messageData senderType sessionId savedMessage =
     \<lparr>md_sessionId = sessionId,
      md_message = msg_message savedMessage,
      md_sender = msg_sender savedMessage,
      md_senderType = senderType,
      md_isAi = msg_isAi savedMessage,
      md_attachmentUrl = msg_attachmentUrl savedMessage,
      md_attachmentType = msg_attachmentType savedMessage,
      md_timestamp = msg_createdAt savedMessage\<rparr>"

text \<open>
  The reply generator is outside the program: what it did for this event is an input.
  \<open>GeneratorFailed\<close> is a thrown request or a response that is not ok; \<open>Completion c\<close> is
  a response whose first choice has the content \<open>c\<close>, \<open>None\<close> when a part of the
  path \<^verbatim>\<open>choices[0]?.message?.content\<close> is missing. \<open>replyWrite\<close> is the database's
  verdict on the insert of the reply.
\<close>

datatype reply_outcome = GeneratorFailed | Completion "js_string option"

record ai_env =
  apiKey :: "js_string option"
  outcome :: reply_outcome
  replyWrite :: db_verdict

datatype backend = OpenAI | Groq

definition aiMessageData :: "js_string \<Rightarrow> message_row \<Rightarrow> message_data" where
  "aiMessageData sessionId aiSaved =
     \<lparr>md_sessionId = sessionId,
      md_message = msg_message aiSaved,
      md_sender = js ''AI'',
      md_senderType = Admin,
      md_isAi = True,
      md_attachmentUrl = None,
      md_attachmentType = None,
      md_timestamp = msg_createdAt aiSaved\<rparr>"

text \<open>The body of \<^verbatim>\<open>if (aiText) { ... }\<close>, the same in both variants of the file.\<close>

definition ai_input :: "js_string \<Rightarrow> js_string \<Rightarrow> message_input" where
  "ai_input sessionId aiText =
     \<lparr>mi_sessionId = sessionId, mi_message = aiText, mi_sender = js ''AI'',
      mi_senderType = Admin, mi_isAi = Some True,
      mi_attachmentUrl = None, mi_attachmentType = None\<rparr>"

definition send_ai_reply :: "js_string \<Rightarrow> js_string \<Rightarrow> db_verdict \<Rightarrow> state \<Rightarrow> db_error + state" where
  "send_ai_reply sessionId aiText verdict st =
     (case createMessage (ai_input sessionId aiText) verdict st of
        Inl e \<Rightarrow> Inl e
      | Inr (aiSaved, st1) \<Rightarrow>
          Inr (emit (ToRoom (session_room sessionId)) ''typing:admin:stop'' NoPayload
                (emit (ToRoom (js ''admin'')) ''message:new'' (MessageData (aiMessageData sessionId aiSaved))
                  (emit (ToRoom (session_room sessionId)) ''message:received''
                     (MessageData (aiMessageData sessionId aiSaved)) st1))))"

text \<open>
  The reply step of \<^verbatim>\<open>message:user\<close>. In socket/socket.ts (the OpenAI variant) one
  \<^verbatim>\<open>try\<close> encloses it, and an empty text skips the \<^verbatim>\<open>if\<close> with nothing else done. In the
  other variant of the file (Groq) the \<^verbatim>\<open>else\<close> branch throws, and the inner \<^verbatim>\<open>catch\<close>
  stops the typing indicator.
\<close>

definition ai_reply :: "backend \<Rightarrow> js_string \<Rightarrow> ai_env \<Rightarrow> state \<Rightarrow> state" where
  "ai_reply b sessionId env st =
     (let aiEnabled = (case getSession sessionId st of None \<Rightarrow> False | Some s \<Rightarrow> cs_aiEnabled s);
          stop = emit (ToRoom (session_room sessionId)) ''typing:admin:stop'' NoPayload
      in if aiEnabled \<and> truthy (apiKey env) then
           let st1 = emit (ToRoom (session_room sessionId)) ''typing:admin'' NoPayload st in
           case outcome env of
             GeneratorFailed \<Rightarrow> stop st1
           | Completion content \<Rightarrow>
               let aiText = map_option trim content in
               if truthy aiText then
                 (case send_ai_reply sessionId (or_default aiText []) (replyWrite env) st1 of
                    Inl e \<Rightarrow> stop st1
                  | Inr st2 \<Rightarrow> st2)
               else (case b of OpenAI \<Rightarrow> st1 | Groq \<Rightarrow> stop st1)
         else st)"

definition invalid_message_data :: "state \<Rightarrow> js_string \<Rightarrow> state" where
  "invalid_message_data st c = emit (ToSocket c) ''error'' (ErrorMessage ''Invalid message data'') st"

definition message_user ::
  "backend \<Rightarrow> js_string \<Rightarrow> chat_message \<Rightarrow> db_verdict \<Rightarrow> ai_env \<Rightarrow> state \<Rightarrow> state" where
  "message_user b c d verdict env st =
     (case (cm_sessionId d, cm_message d) of
        (Some sessionId, Some message) \<Rightarrow>
          if sessionId = [] \<or> message = [] \<or> trim message = [] then invalid_message_data st c
          else
            (case createMessage (message_input_of User (js ''User'') sessionId message d) verdict st of
               Inl e \<Rightarrow> emit (ToSocket c) ''error'' (ErrorMessage ''Failed to send message'') st
             | Inr (savedMessage, st1) \<Rightarrow>
                 ai_reply b sessionId env
                   (emit (ToSocket c) ''message:sent'' (MessageData (messageData User sessionId savedMessage))
                     (emit (ToRoom (js ''admin'')) ''message:new''
                        (MessageData (messageData User sessionId savedMessage)) st1)))
      | _ \<Rightarrow> invalid_message_data st c)"

definition message_admin :: "js_string \<Rightarrow> chat_message \<Rightarrow> db_verdict \<Rightarrow> state \<Rightarrow> state" where
  "message_admin c d verdict st =
     (case (cm_sessionId d, cm_message d) of
        (Some sessionId, Some message) \<Rightarrow>
          if sessionId = [] \<or> message = [] \<or> trim message = [] then invalid_message_data st c
          else
            (case createMessage (message_input_of Admin (js ''Admin'') sessionId message d) verdict st of
               Inl e \<Rightarrow> emit (ToSocket c) ''error'' (ErrorMessage ''Failed to send message'') st
             | Inr (savedMessage, st1) \<Rightarrow>
                 emit (ToSocket c) ''message:sent'' (MessageData (messageData Admin sessionId savedMessage))
                   (emit (ToRoom (session_room sessionId)) ''message:received''
                      (MessageData (messageData Admin sessionId savedMessage)) st1))
      | _ \<Rightarrow> invalid_message_data st c)"

subsection \<open>admin:join, typing:start, typing:stop, session:close\<close>

definition admin_join :: "js_string \<Rightarrow> state \<Rightarrow> state" where
  "admin_join c st = socket_join c (js ''admin'') st"

record typing_data =
  td_sessionId :: "js_string option"
  td_senderType :: "js_string option"

definition typing_start :: "js_string \<Rightarrow> typing_data \<Rightarrow> state \<Rightarrow> state" where
  "typing_start c d st =
     (if \<not> truthy (td_sessionId d) \<or> \<not> truthy (td_senderType d) then st
      else if td_senderType d = Some (js ''user'')
      then emit (ToRoom (js ''admin'')) ''typing:user'' (SessionIdOnly (or_default (td_sessionId d) [])) st
      else emit (ToRoom (session_room (or_default (td_sessionId d) []))) ''typing:admin'' NoPayload st)"

definition typing_stop :: "js_string \<Rightarrow> typing_data \<Rightarrow> state \<Rightarrow> state" where
  "typing_stop c d st =
     (if \<not> truthy (td_sessionId d) \<or> \<not> truthy (td_senderType d) then st
      else if td_senderType d = Some (js ''user'')
      then emit (ToRoom (js ''admin'')) ''typing:user:stop'' (SessionIdOnly (or_default (td_sessionId d) [])) st
      else emit (ToRoom (session_room (or_default (td_sessionId d) []))) ''typing:admin:stop'' NoPayload st)"

definition session_close :: "js_string \<Rightarrow> js_string option \<Rightarrow> nat \<Rightarrow> state \<Rightarrow> state" where
  "session_close c sessionId now st =
     (if truthy sessionId then
        (case updateSessionStatus (or_default sessionId []) Inactive now st of
           Inl e \<Rightarrow> st
         | Inr (session, st1) \<Rightarrow> st1)
      else st)"

subsection \<open>disconnect\<close>

text \<open>
  The loop over \<^verbatim>\<open>Array.from(socket.rooms)\<close>. An exception of \<^verbatim>\<open>updateSessionStatus\<close>
  leaves the loop: the \<^verbatim>\<open>try\<close> encloses the whole of it.
\<close>

fun disconnect_rooms :: "js_string list \<Rightarrow> nat \<Rightarrow> state \<Rightarrow> state" where
  "disconnect_rooms [] now st = st"
| "disconnect_rooms (room # rs) now st =
     (if startsWith room (js ''session:'') then
        (let sessionId = replace_first (js ''session:'') [] room;
             roomSockets = fetchSockets room st
         in if length roomSockets = 0 then
              (case updateSessionStatus sessionId Inactive now st of
                 Inl e \<Rightarrow> st
               | Inr (session, st1) \<Rightarrow> disconnect_rooms rs now st1)
            else disconnect_rooms rs now st)
      else disconnect_rooms rs now st)"

definition disconnect_handler :: "js_string \<Rightarrow> nat \<Rightarrow> state \<Rightarrow> state" where
  "disconnect_handler c now st = disconnect_rooms (socket_rooms c st) now st"

subsection \<open>The platform and the events of a run\<close>

text \<open>
  Socket.IO puts a new socket into the room named by its own id. When a socket closes,
  it fires \<^verbatim>\<open>disconnecting\<close>, takes the socket out of all its rooms, and only then fires
  \<^verbatim>\<open>disconnect\<close>, the event setupSocketIO listens to.
\<close>

datatype event =
    Connection js_string
  | UserConnect js_string user_connect_data js_string nat
  | MessageUser js_string chat_message db_verdict ai_env
  | MessageAdmin js_string chat_message db_verdict
  | AdminJoin js_string
  | TypingStart js_string typing_data
  | TypingStop js_string typing_data
  | SessionClose js_string "js_string option" nat
  | Disconnect js_string nat
  | ToggleAi js_string bool nat

fun step :: "backend \<Rightarrow> state \<Rightarrow> event \<Rightarrow> state" where
  "step b st (Connection c) = socket_join c c st"
| "step b st (UserConnect c d uuid now) = user_connect c d uuid now st"
| "step b st (MessageUser c d verdict env) = message_user b c d verdict env st"
| "step b st (MessageAdmin c d verdict) = message_admin c d verdict st"
| "step b st (AdminJoin c) = admin_join c st"
| "step b st (TypingStart c d) = typing_start c d st"
| "step b st (TypingStop c d) = typing_stop c d st"
| "step b st (SessionClose c sessionId now) = session_close c sessionId now st"
| "step b st (Disconnect c now) = disconnect_handler c now (leave_all c st)"
| "step b st (ToggleAi sessionId enabled now) = toggleAiForSession sessionId enabled now st"

definition run :: "backend \<Rightarrow> event list \<Rightarrow> state" where
  "run b es = foldl (step b) init es"

text \<open>A row of the reply step: automated, and without attachment.\<close>

definition automated_row :: "message_row \<Rightarrow> bool" where
  "automated_row r = (msg_isAi r \<and> msg_attachmentUrl r = None \<and> msg_attachmentType r = None)"

text \<open>
  The effects the reply step of a session may add after a user message: an automated row,
  the two typing signals to the session's room, and an automated message sent as
  \<^verbatim>\<open>message:received\<close> to the session's room or as \<^verbatim>\<open>message:new\<close> to the room \<open>admin\<close>.
\<close>

definition reply_effect :: "js_string \<Rightarrow> effect \<Rightarrow> bool" where
  "reply_effect sessionId e =
     (case e of
        Persisted r \<Rightarrow> msg_isAi r
      | Emitted t ev p \<Rightarrow>
          (case p of
             NoPayload \<Rightarrow>
               t = ToRoom (session_room sessionId) \<and> (ev = ''typing:admin'' \<or> ev = ''typing:admin:stop'')
           | MessageData md \<Rightarrow>
               md_isAi md \<and>
               (t = ToRoom (session_room sessionId) \<and> ev = ''message:received'' \<or>
                t = ToRoom (js ''admin'') \<and> ev = ''message:new'')
           | SessionIdOnly s \<Rightarrow> False
           | ErrorMessage m \<Rightarrow> False))"

subsection \<open>Sample inputs\<close>

definition connect_s1 :: user_connect_data where
  "connect_s1 = \<lparr>uc_sessionId = Some (js ''s1''), uc_userIp = None, uc_userAgent = None\<rparr>"

definition state_s1 :: state where
  "state_s1 = run OpenAI [Connection (js ''c1''), UserConnect (js ''c1'') connect_s1 (js ''u1'') 1]"

definition state_s1_ai :: state where
  "state_s1_ai = run OpenAI [Connection (js ''c1''), UserConnect (js ''c1'') connect_s1 (js ''u1'') 1,
                             ToggleAi (js ''s1'') True 2]"

definition no_ai :: ai_env where
  "no_ai = \<lparr>apiKey = None, outcome = GeneratorFailed, replyWrite = Refused\<rparr>"

definition blank_message :: chat_message where
  "blank_message = \<lparr>cm_sessionId = Some (js ''s1''), cm_message = Some [0x20, 0xA0, 0x2028],
                    cm_sender = Some (js ''Alice''), cm_attachmentUrl = None, cm_attachmentType = None\<rparr>"

definition typing_without_session :: typing_data where
  "typing_without_session = \<lparr>td_sessionId = None, td_senderType = Some (js ''user'')\<rparr>"

definition hello_message :: chat_message where
  "hello_message = \<lparr>cm_sessionId = Some (js ''s1''), cm_message = Some (js '' hello ''),
                    cm_sender = Some (js ''Alice''), cm_attachmentUrl = None, cm_attachmentType = None\<rparr>"

definition long_sender_message :: chat_message where
  "long_sender_message = \<lparr>cm_sessionId = Some (js ''s1''), cm_message = Some (js '' hello ''),
       cm_sender = Some (replicate 51 0x78), cm_attachmentUrl = None, cm_attachmentType = None\<rparr>"

definition long_body_message :: chat_message where
  "long_body_message = \<lparr>cm_sessionId = Some (js ''s1''), cm_message = Some (replicate 5002 0x61),
       cm_sender = None, cm_attachmentUrl = None, cm_attachmentType = None\<rparr>"

definition nameless_message :: chat_message where
  "nameless_message = \<lparr>cm_sessionId = Some (js ''s1''), cm_message = Some (js '' hello ''),
       cm_sender = Some [], cm_attachmentUrl = None, cm_attachmentType = None\<rparr>"

definition url_only_message :: chat_message where
  "url_only_message = \<lparr>cm_sessionId = Some (js ''s1''), cm_message = Some (js ''see this''),
       cm_sender = Some (js ''Alice''), cm_attachmentUrl = Some (js ''http://h/uploads/f1''),
       cm_attachmentType = None\<rparr>"

definition attachment_message :: chat_message where
  "attachment_message = \<lparr>cm_sessionId = Some (js ''s1''), cm_message = Some (js ''see this''),
       cm_sender = Some (js ''Alice''), cm_attachmentUrl = Some (js ''http://h/uploads/f1''),
       cm_attachmentType = Some (js ''image/png'')\<rparr>"

definition good_reply :: ai_env where
  "good_reply = \<lparr>apiKey = Some (js ''key''), outcome = Completion (Some (js '' Hi, how can I help? '')),
                 replyWrite = Inserted 2 4\<rparr>"

definition empty_reply :: ai_env where
  "empty_reply = \<lparr>apiKey = Some (js ''key''), outcome = Completion (Some []), replyWrite = Inserted 2 4\<rparr>"

definition long_reply :: ai_env where
  "long_reply = \<lparr>apiKey = Some (js ''key''), outcome = Completion (Some (replicate 5002 0x61)),
                 replyWrite = Inserted 2 4\<rparr>"

definition two_tabs :: "event list" where
  "two_tabs = [Connection (js ''c1''), UserConnect (js ''c1'') connect_s1 (js ''u1'') 1,
               Connection (js ''c2''), UserConnect (js ''c2'') connect_s1 (js ''u2'') 2]"






section \<open>Properties\<close>

subsection \<open>Auxiliary facts\<close>

lemma dropWhile_all_iff: "(\<forall>x\<in>set (dropWhile P xs). P x) \<longleftrightarrow> (\<forall>x\<in>set xs. P x)"
  by (induction xs) auto

lemma trim_empty_iff: "trim s = [] \<longleftrightarrow> list_all is_space s"
  by (simp add: trim_def list_all_iff dropWhile_all_iff)

lemma trim_replicate: "\<not> is_space x \<Longrightarrow> trim (replicate n x) = replicate n x"
  by (simp add: trim_def)

lemma surrogate_pairs_none: "\<forall>x\<in>set xs. \<not> is_high x \<Longrightarrow> surrogate_pairs xs = 0"
  by (induction xs rule: surrogate_pairs.induct) simp_all

lemma isLength_replicate:
  "\<not> is_high x \<Longrightarrow> \<not> is_selector x \<Longrightarrow> isLength (replicate n x) = n"
  by (simp add: isLength_def surrogate_pairs_none)

lemma letter_a: "\<not> is_space (0x61 :: code_unit)" "\<not> is_high (0x61 :: code_unit)" "\<not> is_selector (0x61 :: code_unit)"
  by (simp_all add: is_space_def is_high_def is_selector_def)

lemma letter_x: "\<not> is_space (0x78 :: code_unit)" "\<not> is_high (0x78 :: code_unit)" "\<not> is_selector (0x78 :: code_unit)"
  by (simp_all add: is_space_def is_high_def is_selector_def)

lemmas evals =
  js_def truthy_def or_default_def or_null_def is_space_def trim_def notEmpty_def
  is_high_def is_low_def is_selector_def isLength_def len_def chars_def
  without_trailing_blanks_def varchar_accepts_def varchar_value_def address_accepted_def
  column_accepts_def column_value_def

lemma state_s1_eq:
  "state_s1 =
     \<lparr>sessions = [\<lparr>cs_id = 1, cs_sessionId = js ''s1'', cs_userIp = Some (js ''unknown''),
                   cs_userAgent = Some (js ''unknown''), cs_status = Active, cs_aiEnabled = False,
                   cs_createdAt = 1, cs_updatedAt = 1\<rparr>],
      messages = [],
      rooms = [(js ''c1'', js ''c1''), (js ''c1'', js ''session:s1'')],
      trace = [Emitted (ToSocket (js ''c1'')) ''user:connected'' (SessionIdOnly (js ''s1''))]\<rparr>"
  by (simp add: state_s1_def run_def init_def connect_s1_def user_connect_def socket_join_def
      createOrUpdateSession_def find_session_def session_accepted_def emit_def session_room_def
      Let_def evals)

lemma state_s1_ai_eq:
  "state_s1_ai =
     \<lparr>sessions = [\<lparr>cs_id = 1, cs_sessionId = js ''s1'', cs_userIp = Some (js ''unknown''),
                   cs_userAgent = Some (js ''unknown''), cs_status = Active, cs_aiEnabled = True,
                   cs_createdAt = 1, cs_updatedAt = 2\<rparr>],
      messages = [],
      rooms = [(js ''c1'', js ''c1''), (js ''c1'', js ''session:s1'')],
      trace = [Emitted (ToSocket (js ''c1'')) ''user:connected'' (SessionIdOnly (js ''s1''))]\<rparr>"
  by (simp add: state_s1_ai_def run_def init_def connect_s1_def user_connect_def socket_join_def
      createOrUpdateSession_def find_session_def session_accepted_def emit_def session_room_def
      toggleAiForSession_def instance_update_def Let_def evals)

lemma createMessage_accepted:
  "message_accepted mi st \<Longrightarrow>
   createMessage mi (Inserted new_id now) st =
     Inr (build_message mi new_id now,
          st\<lparr>messages := messages st @ [build_message mi new_id now],
             trace := trace st @ [Persisted (build_message mi new_id now)]\<rparr>)"
  by (simp add: createMessage_def message_accepted_def Let_def)

lemma createMessage_rejected:
  "\<not> message_accepted mi st \<or> verdict = Refused \<Longrightarrow> \<exists>e. createMessage mi verdict st = Inl e"
  by (auto simp: createMessage_def message_accepted_def)

lemma message_accepted_emit [simp]: "message_accepted mi (emit t ev p st) = message_accepted mi st"
  by (simp add: message_accepted_def references_session_def emit_def find_session_def)

lemma find_session_emit [simp]: "find_session sid (emit t ev p st) = find_session sid st"
  by (simp add: emit_def find_session_def)

lemma find_session_after_message [simp]:
  "find_session sid (st\<lparr>messages := ms, trace := tr\<rparr>) = find_session sid st"
  by (simp add: find_session_def)

lemma message_accepted_after_message [simp]:
  "message_accepted mi (st\<lparr>messages := ms, trace := tr\<rparr>) = message_accepted mi st"
  by (simp add: message_accepted_def references_session_def)

lemma truthy_Some: "truthy (Some s) = (s \<noteq> [])"
  by (simp add: truthy_def)

lemma or_default_falsy: "\<not> truthy v \<Longrightarrow> or_default v d = d"
  by (auto simp: truthy_def or_default_def split: option.splits)

lemma column_value_literals:
  "column_value 50 (js ''User'') = js ''User''"
  "column_value 50 (js ''Admin'') = js ''Admin''"
  "column_value 50 (js ''AI'') = js ''AI''"
  by (simp_all add: evals)


subsection \<open>Rejected messages\<close>

text \<open>
  C2. A \<^verbatim>\<open>message:user\<close> or \<^verbatim>\<open>message:admin\<close> event whose session id is missing (or
  empty), or whose body is missing, empty or white space only, changes nothing but the
  trace, and adds to the trace exactly one event: the error \<open>Invalid message data\<close>, sent
  to the socket the event came from. So no message is persisted and nothing goes to a room.
  White space is what \<^verbatim>\<open>trim\<close> removes, the no-break space and the line separators
  included.
\<close>

theorem C2_invalid_message_only_error:
  assumes "\<not> truthy (cm_sessionId d) \<or>
           (case cm_message d of None \<Rightarrow> True | Some m \<Rightarrow> list_all is_space m)"
  shows "message_user b c d verdict env st =
           st\<lparr>trace := trace st @ [Emitted (ToSocket c) ''error'' (ErrorMessage ''Invalid message data'')]\<rparr>
         \<and> message_admin c d verdict st =
           st\<lparr>trace := trace st @ [Emitted (ToSocket c) ''error'' (ErrorMessage ''Invalid message data'')]\<rparr>"
proof (cases "cm_sessionId d")
  case None
  then show ?thesis
    by (simp add: message_user_def message_admin_def invalid_message_data_def emit_def)
next
  case sid: (Some sessionId)
  show ?thesis
  proof (cases "cm_message d")
    case None
    with sid show ?thesis
      by (simp add: message_user_def message_admin_def invalid_message_data_def emit_def)
  next
    case (Some message)
    with sid assms have "sessionId = [] \<or> trim message = []"
      by (auto simp: truthy_def trim_empty_iff)
    with sid Some show ?thesis
      by (auto simp: message_user_def message_admin_def invalid_message_data_def emit_def)
  qed
qed

theorem C2_invalid_message_only_error_witness:
  "(case cm_message blank_message of None \<Rightarrow> True | Some m \<Rightarrow> list_all is_space m)
   \<and> message_user OpenAI (js ''c1'') blank_message (Inserted 1 2) no_ai state_s1 =
       state_s1\<lparr>trace := trace state_s1 @
                  [Emitted (ToSocket (js ''c1'')) ''error'' (ErrorMessage ''Invalid message data'')]\<rparr>
   \<and> message_admin (js ''c1'') blank_message (Inserted 1 2) state_s1 =
       state_s1\<lparr>trace := trace state_s1 @
                  [Emitted (ToSocket (js ''c1'')) ''error'' (ErrorMessage ''Invalid message data'')]\<rparr>"
  using C2_invalid_message_only_error [of blank_message OpenAI "js ''c1''" "Inserted 1 2" no_ai state_s1]
  by (simp add: blank_message_def is_space_def)


subsection \<open>Incomplete typing and close events\<close>

text \<open>
  C10. A \<^verbatim>\<open>typing:start\<close> or \<^verbatim>\<open>typing:stop\<close> event without session id or without author
  class, and a \<^verbatim>\<open>session:close\<close> event without session id, leave the whole state as it
  is: no table changes, and the trace gets no event, so nothing is broadcast and no
  error goes back to the sender.
\<close>

theorem C10_incomplete_events_dropped:
  "(\<not> truthy (td_sessionId d) \<or> \<not> truthy (td_senderType d) \<longrightarrow>
      typing_start c d st = st \<and> typing_stop c d st = st)
   \<and> (\<not> truthy sessionId \<longrightarrow> session_close c sessionId now st = st)"
  by (simp add: typing_start_def typing_stop_def session_close_def)

theorem C10_incomplete_events_dropped_witness:
  "\<not> truthy (td_sessionId typing_without_session)
   \<and> typing_start (js ''c1'') typing_without_session state_s1 = state_s1
   \<and> typing_stop (js ''c1'') typing_without_session state_s1 = state_s1
   \<and> \<not> truthy None
   \<and> session_close (js ''c1'') None 2 state_s1 = state_s1"
  using C10_incomplete_events_dropped [of typing_without_session "js ''c1''" state_s1 None 2]
  by (simp add: typing_without_session_def truthy_def)

subsection \<open>What the message handlers do with an accepted and with a rejected write\<close>

lemma ai_row_fields:
  "msg_isAi (build_message (ai_input sid t) n now)"
  "msg_attachmentUrl (build_message (ai_input sid t) n now) = None"
  "msg_attachmentType (build_message (ai_input sid t) n now) = None"
  "msg_senderType (build_message (ai_input sid t) n now) = Admin"
  "msg_sender (build_message (ai_input sid t) n now) = js ''AI''"
  "msg_message (build_message (ai_input sid t) n now) = pg_text t"
  "msg_sessionId (build_message (ai_input sid t) n now) = column_value 255 sid"
  by (simp_all add: build_message_def ai_input_def or_null_def truthy_def column_value_literals)

lemma send_ai_reply_cases:
  "(\<exists>e. send_ai_reply sid t verdict s = Inl e) \<or>
     (\<exists>s'. send_ai_reply sid t verdict s = Inr s' \<and>
        (\<exists>ms es. messages s' = messages s @ ms \<and> list_all automated_row ms \<and>
           trace s' = trace s @ es \<and> list_all (reply_effect sid) es \<and>
           rooms s' = rooms s \<and> sessions s' = sessions s))"
proof (cases "message_accepted (ai_input sid t) s \<and> verdict \<noteq> Refused")
  case True
  then obtain n now where v: "verdict = Inserted n now" by (cases verdict) auto
  from True have acc: "message_accepted (ai_input sid t) s" by simp
  show ?thesis
    by (rule disjI2)
       (simp add: send_ai_reply_def v createMessage_accepted [OF acc] emit_def ai_row_fields
          aiMessageData_def reply_effect_def automated_row_def)
next
  case False
  then have "\<exists>e. createMessage (ai_input sid t) verdict s = Inl e"
    by (intro createMessage_rejected) auto
  then show ?thesis by (auto simp: send_ai_reply_def)
qed

lemma ai_reply_effects:
  "\<exists>ms es. messages (ai_reply b sid env st) = messages st @ ms \<and> list_all automated_row ms \<and>
           trace (ai_reply b sid env st) = trace st @ es \<and> list_all (reply_effect sid) es \<and>
           rooms (ai_reply b sid env st) = rooms st \<and> sessions (ai_reply b sid env st) = sessions st"
  using send_ai_reply_cases [of sid "or_default (map_option trim (case outcome env of Completion c \<Rightarrow> c | _ \<Rightarrow> None)) []" "replyWrite env"
                   "emit (ToRoom (session_room sid)) ''typing:admin'' NoPayload st"]
  by (auto simp: ai_reply_def Let_def emit_def reply_effect_def
           split: option.splits reply_outcome.splits backend.splits sum.splits)

lemma message_user_accepted:
  assumes "cm_sessionId d = Some sid" "sid \<noteq> []" "cm_message d = Some m" "trim m \<noteq> []"
    and "message_accepted (message_input_of User (js ''User'') sid m d) st"
  shows "message_user b c d (Inserted new_id now) env st =
     ai_reply b sid env
       (st\<lparr>messages := messages st @ [build_message (message_input_of User (js ''User'') sid m d) new_id now],
          trace := trace st @
            [Persisted (build_message (message_input_of User (js ''User'') sid m d) new_id now),
             Emitted (ToRoom (js ''admin'')) ''message:new''
               (MessageData (messageData User sid (build_message (message_input_of User (js ''User'') sid m d) new_id now))),
             Emitted (ToSocket c) ''message:sent''
               (MessageData (messageData User sid (build_message (message_input_of User (js ''User'') sid m d) new_id now)))]\<rparr>)"
proof -
  from assms(4) have "m \<noteq> []" by (auto simp: trim_def)
  with assms show ?thesis
    by (simp add: message_user_def createMessage_accepted emit_def)
qed

lemma message_admin_accepted:
  assumes "cm_sessionId d = Some sid" "sid \<noteq> []" "cm_message d = Some m" "trim m \<noteq> []"
    and "message_accepted (message_input_of Admin (js ''Admin'') sid m d) st"
  shows "message_admin c d (Inserted new_id now) st =
       (st\<lparr>messages := messages st @ [build_message (message_input_of Admin (js ''Admin'') sid m d) new_id now],
          trace := trace st @
            [Persisted (build_message (message_input_of Admin (js ''Admin'') sid m d) new_id now),
             Emitted (ToRoom (session_room sid)) ''message:received''
               (MessageData (messageData Admin sid (build_message (message_input_of Admin (js ''Admin'') sid m d) new_id now))),
             Emitted (ToSocket c) ''message:sent''
               (MessageData (messageData Admin sid (build_message (message_input_of Admin (js ''Admin'') sid m d) new_id now)))]\<rparr>)"
proof -
  from assms(4) have "m \<noteq> []" by (auto simp: trim_def)
  with assms show ?thesis
    by (simp add: message_admin_def createMessage_accepted emit_def)
qed

lemma message_rejected:
  assumes "cm_sessionId d = Some sid" "sid \<noteq> []" "cm_message d = Some m" "trim m \<noteq> []"
  shows "\<not> message_accepted (message_input_of User (js ''User'') sid m d) st \<or> verdict = Refused \<Longrightarrow>
           message_user b c d verdict env st = emit (ToSocket c) ''error'' (ErrorMessage ''Failed to send message'') st"
    and "\<not> message_accepted (message_input_of Admin (js ''Admin'') sid m d) st \<or> verdict = Refused \<Longrightarrow>
           message_admin c d verdict st = emit (ToSocket c) ''error'' (ErrorMessage ''Failed to send message'') st"
proof -
  from assms(4) have m: "m \<noteq> []" by (auto simp: trim_def)
  { assume "\<not> message_accepted (message_input_of User (js ''User'') sid m d) st \<or> verdict = Refused"
    then obtain e where "createMessage (message_input_of User (js ''User'') sid m d) verdict st = Inl e"
      using createMessage_rejected by blast
    with assms m show "message_user b c d verdict env st = emit (ToSocket c) ''error'' (ErrorMessage ''Failed to send message'') st"
      by (simp add: message_user_def) }
  { assume "\<not> message_accepted (message_input_of Admin (js ''Admin'') sid m d) st \<or> verdict = Refused"
    then obtain e where "createMessage (message_input_of Admin (js ''Admin'') sid m d) verdict st = Inl e"
      using createMessage_rejected by blast
    with assms m show "message_admin c d verdict st = emit (ToSocket c) ''error'' (ErrorMessage ''Failed to send message'') st"
      by (simp add: message_admin_def) }
qed

lemma trim_hello: "trim (js '' hello '') = js ''hello''"
  by (simp add: evals)

lemma session_s1: "find_session (js ''s1'') state_s1 \<noteq> None" "find_session (js ''s1'') state_s1_ai \<noteq> None"
  by (simp_all add: find_session_def state_s1_eq state_s1_ai_eq)

lemma column_value_s1: "column_value 255 (js ''s1'') = js ''s1''"
  by (simp add: evals)

lemma hello_accepted:
  "message_accepted (message_input_of User (js ''User'') (js ''s1'') (js '' hello '') hello_message) state_s1"
  "message_accepted (message_input_of Admin (js ''Admin'') (js ''s1'') (js '' hello '') hello_message) state_s1"
  "message_accepted (message_input_of User (js ''User'') (js ''s1'') (js '' hello '') hello_message) state_s1_ai"
  by (simp_all add: message_accepted_def message_valid_def columns_accept_def references_session_def
      message_input_of_def hello_message_def column_value_s1 session_s1)
     (simp_all add: evals)

lemma hello_fields:
  "cm_sessionId hello_message = Some (js ''s1'')" "js ''s1'' \<noteq> []"
  "cm_message hello_message = Some (js '' hello '')" "trim (js '' hello '') \<noteq> []"
  by (simp_all add: hello_message_def trim_hello) (simp_all add: js_def)


subsection \<open>Accepted messages\<close>

text \<open>
  C1, as amended. A \<^verbatim>\<open>message:user\<close> or \<^verbatim>\<open>message:admin\<close> event with a session id and a
  body that is not empty after trimming, whose row the persistence layer accepts and
  whose insert succeeds, persists exactly one message that is not automated: author class
  user resp. admin, the trimmed body as the database renders it, primary key and creation
  time as the database gave them. The write is the first effect of the handler. It is
  followed by exactly one broadcast of that message (\<^verbatim>\<open>message:new\<close> to the room \<open>admin\<close>
  for a user message, \<^verbatim>\<open>message:received\<close> to the session's room for an admin message),
  and then by \<^verbatim>\<open>message:sent\<close> to the sender; the payload carries the session id of the
  event, the body and author name of the row, the author class and automated = false.
  After a user message only effects of the reply step follow: automated rows, the signals
  \<^verbatim>\<open>typing:admin\<close> and \<^verbatim>\<open>typing:admin:stop\<close> to the session's room, and automated
  messages to the session's room and to the room \<open>admin\<close>.
\<close>

theorem C1_accepted_message_persisted_then_broadcast:
  assumes "cm_sessionId d = Some sid" and "sid \<noteq> []"
    and "cm_message d = Some m" and "trim m \<noteq> []"
  shows "(message_accepted (message_input_of User (js ''User'') sid m d) st \<longrightarrow>
          (let u = build_message (message_input_of User (js ''User'') sid m d) new_id now;
               p = messageData User sid u
           in msg_id u = new_id \<and> msg_createdAt u = now \<and>
              msg_senderType u = User \<and> \<not> msg_isAi u \<and> msg_message u = pg_text (trim m) \<and>
              md_sessionId p = sid \<and> md_message p = msg_message u \<and> md_sender p = msg_sender u \<and>
              md_senderType p = User \<and> \<not> md_isAi p \<and>
              (\<exists>ai_rows ai_effects.
                 messages (message_user b c d (Inserted new_id now) env st) = messages st @ [u] @ ai_rows \<and>
                 list_all msg_isAi ai_rows \<and>
                 trace (message_user b c d (Inserted new_id now) env st) =
                   trace st @
                   [Persisted u,
                    Emitted (ToRoom (js ''admin'')) ''message:new'' (MessageData p),
                    Emitted (ToSocket c) ''message:sent'' (MessageData p)] @ ai_effects \<and>
                 list_all (reply_effect sid) ai_effects)))
       \<and> (message_accepted (message_input_of Admin (js ''Admin'') sid m d) st \<longrightarrow>
          (let a = build_message (message_input_of Admin (js ''Admin'') sid m d) new_id now;
               p = messageData Admin sid a
           in msg_id a = new_id \<and> msg_createdAt a = now \<and>
              msg_senderType a = Admin \<and> \<not> msg_isAi a \<and> msg_message a = pg_text (trim m) \<and>
              md_sessionId p = sid \<and> md_message p = msg_message a \<and> md_sender p = msg_sender a \<and>
              md_senderType p = Admin \<and> \<not> md_isAi p \<and>
              messages (message_admin c d (Inserted new_id now) st) = messages st @ [a] \<and>
              trace (message_admin c d (Inserted new_id now) st) =
                trace st @
                [Persisted a,
                 Emitted (ToRoom (session_room sid)) ''message:received'' (MessageData p),
                 Emitted (ToSocket c) ''message:sent'' (MessageData p)]))"
proof (intro conjI impI)
  assume acc: "message_accepted (message_input_of User (js ''User'') sid m d) st"
  let ?u = "build_message (message_input_of User (js ''User'') sid m d) new_id now"
  let ?p = "messageData User sid ?u"
  have fields: "msg_id ?u = new_id \<and> msg_createdAt ?u = now \<and>
              msg_senderType ?u = User \<and> \<not> msg_isAi ?u \<and> msg_message ?u = pg_text (trim m) \<and>
              md_sessionId ?p = sid \<and> md_message ?p = msg_message ?u \<and> md_sender ?p = msg_sender ?u \<and>
              md_senderType ?p = User \<and> \<not> md_isAi ?p"
    by (simp add: build_message_def message_input_of_def messageData_def)
  let ?st3 = "st\<lparr>messages := messages st @ [?u],
          trace := trace st @
            [Persisted ?u,
             Emitted (ToRoom (js ''admin'')) ''message:new'' (MessageData ?p),
             Emitted (ToSocket c) ''message:sent'' (MessageData ?p)]\<rparr>"
  have run: "message_user b c d (Inserted new_id now) env st = ai_reply b sid env ?st3"
    by (rule message_user_accepted [OF assms acc])
  obtain ms es where
    "messages (ai_reply b sid env ?st3) = messages ?st3 @ ms" "list_all automated_row ms"
    "trace (ai_reply b sid env ?st3) = trace ?st3 @ es" "list_all (reply_effect sid) es"
    using ai_reply_effects [of b sid env ?st3] by blast
  moreover from \<open>list_all automated_row ms\<close> have "list_all msg_isAi ms"
    by (simp add: list_all_iff automated_row_def)
  ultimately have "\<exists>ai_rows ai_effects.
          messages (message_user b c d (Inserted new_id now) env st) = messages st @ [?u] @ ai_rows \<and>
          list_all msg_isAi ai_rows \<and>
          trace (message_user b c d (Inserted new_id now) env st) =
            trace st @
            [Persisted ?u,
             Emitted (ToRoom (js ''admin'')) ''message:new'' (MessageData ?p),
             Emitted (ToSocket c) ''message:sent'' (MessageData ?p)] @ ai_effects \<and>
          list_all (reply_effect sid) ai_effects"
    using run by auto
  with fields show "let u = ?u; p = messageData User sid u
           in msg_id u = new_id \<and> msg_createdAt u = now \<and>
              msg_senderType u = User \<and> \<not> msg_isAi u \<and> msg_message u = pg_text (trim m) \<and>
              md_sessionId p = sid \<and> md_message p = msg_message u \<and> md_sender p = msg_sender u \<and>
              md_senderType p = User \<and> \<not> md_isAi p \<and>
              (\<exists>ai_rows ai_effects.
                 messages (message_user b c d (Inserted new_id now) env st) = messages st @ [u] @ ai_rows \<and>
                 list_all msg_isAi ai_rows \<and>
                 trace (message_user b c d (Inserted new_id now) env st) =
                   trace st @
                   [Persisted u,
                    Emitted (ToRoom (js ''admin'')) ''message:new'' (MessageData p),
                    Emitted (ToSocket c) ''message:sent'' (MessageData p)] @ ai_effects \<and>
                 list_all (reply_effect sid) ai_effects)"
    by (simp add: Let_def)
next
  assume acc: "message_accepted (message_input_of Admin (js ''Admin'') sid m d) st"
  show "let a = build_message (message_input_of Admin (js ''Admin'') sid m d) new_id now;
               p = messageData Admin sid a
           in msg_id a = new_id \<and> msg_createdAt a = now \<and>
              msg_senderType a = Admin \<and> \<not> msg_isAi a \<and> msg_message a = pg_text (trim m) \<and>
              md_sessionId p = sid \<and> md_message p = msg_message a \<and> md_sender p = msg_sender a \<and>
              md_senderType p = Admin \<and> \<not> md_isAi p \<and>
              messages (message_admin c d (Inserted new_id now) st) = messages st @ [a] \<and>
              trace (message_admin c d (Inserted new_id now) st) =
                trace st @
                [Persisted a,
                 Emitted (ToRoom (session_room sid)) ''message:received'' (MessageData p),
                 Emitted (ToSocket c) ''message:sent'' (MessageData p)]"
    by (simp add: message_admin_accepted [OF assms acc] Let_def build_message_def
        message_input_of_def messageData_def)
qed

theorem C1_accepted_message_persisted_then_broadcast_witness:
  "cm_sessionId hello_message = Some (js ''s1'') \<and> cm_message hello_message = Some (js '' hello '') \<and>
   trim (js '' hello '') = js ''hello'' \<and>
   message_accepted (message_input_of User (js ''User'') (js ''s1'') (js '' hello '') hello_message) state_s1 \<and>
   message_accepted (message_input_of Admin (js ''Admin'') (js ''s1'') (js '' hello '') hello_message) state_s1 \<and>
   msg_message (build_message (message_input_of User (js ''User'') (js ''s1'') (js '' hello '') hello_message) 1 2)
     = pg_text (js ''hello'') \<and>
   (\<exists>ai_rows ai_effects.
      messages (message_user OpenAI (js ''c1'') hello_message (Inserted 1 2) no_ai state_s1) =
        messages state_s1 @
        [build_message (message_input_of User (js ''User'') (js ''s1'') (js '' hello '') hello_message) 1 2] @ ai_rows \<and>
      list_all msg_isAi ai_rows \<and>
      trace (message_user OpenAI (js ''c1'') hello_message (Inserted 1 2) no_ai state_s1) =
        trace state_s1 @
        [Persisted (build_message (message_input_of User (js ''User'') (js ''s1'') (js '' hello '') hello_message) 1 2),
         Emitted (ToRoom (js ''admin'')) ''message:new''
           (MessageData (messageData User (js ''s1'')
              (build_message (message_input_of User (js ''User'') (js ''s1'') (js '' hello '') hello_message) 1 2))),
         Emitted (ToSocket (js ''c1'')) ''message:sent''
           (MessageData (messageData User (js ''s1'')
              (build_message (message_input_of User (js ''User'') (js ''s1'') (js '' hello '') hello_message) 1 2)))]
        @ ai_effects \<and>
      list_all (reply_effect (js ''s1'')) ai_effects) \<and>
   trace (message_admin (js ''c1'') hello_message (Inserted 1 2) state_s1) =
     trace state_s1 @
     [Persisted (build_message (message_input_of Admin (js ''Admin'') (js ''s1'') (js '' hello '') hello_message) 1 2),
      Emitted (ToRoom (session_room (js ''s1''))) ''message:received''
        (MessageData (messageData Admin (js ''s1'')
           (build_message (message_input_of Admin (js ''Admin'') (js ''s1'') (js '' hello '') hello_message) 1 2))),
      Emitted (ToSocket (js ''c1'')) ''message:sent''
        (MessageData (messageData Admin (js ''s1'')
           (build_message (message_input_of Admin (js ''Admin'') (js ''s1'') (js '' hello '') hello_message) 1 2)))]"
proof -
  note t = C1_accepted_message_persisted_then_broadcast
             [OF hello_fields, where st = state_s1 and new_id = 1 and now = 2 and b = OpenAI
                and c = "js ''c1''" and env = no_ai]
  show ?thesis
    using hello_fields hello_accepted(1,2) t by (simp add: Let_def trim_hello)
qed

text \<open>
  C1 as stated fails where the write is rejected. A sender name of 51 characters passes
  the handler's check of session id and body, the model's validator \<^verbatim>\<open>len: [1, 50]\<close>
  rejects the row, and the handler sends the error \<open>Failed to send message\<close>: no message
  is persisted and nothing is broadcast.
\<close>

theorem C1_long_sender_counterexample:
  "cm_sessionId long_sender_message = Some (js ''s1'') \<and>
   map_option trim (cm_message long_sender_message) = Some (js ''hello'') \<and>
   find_session (js ''s1'') state_s1 \<noteq> None \<and>
   messages (message_user OpenAI (js ''c1'') long_sender_message (Inserted 1 2) no_ai state_s1) = [] \<and>
   trace (message_user OpenAI (js ''c1'') long_sender_message (Inserted 1 2) no_ai state_s1) =
     trace state_s1 @ [Emitted (ToSocket (js ''c1'')) ''error'' (ErrorMessage ''Failed to send message'')] \<and>
   messages (message_admin (js ''c1'') long_sender_message (Inserted 1 2) state_s1) = [] \<and>
   trace (message_admin (js ''c1'') long_sender_message (Inserted 1 2) state_s1) =
     trace state_s1 @ [Emitted (ToSocket (js ''c1'')) ''error'' (ErrorMessage ''Failed to send message'')]"
proof -
  have h: "cm_sessionId long_sender_message = Some (js ''s1'')" "js ''s1'' \<noteq> []"
    "cm_message long_sender_message = Some (js '' hello '')" "trim (js '' hello '') \<noteq> []"
    using hello_fields(2,4) by (simp_all add: long_sender_message_def)
  have r: "\<not> message_accepted (message_input_of User (js ''User'') (js ''s1'') (js '' hello '') long_sender_message) state_s1
             \<or> Inserted 1 2 = Refused"
    "\<not> message_accepted (message_input_of Admin (js ''Admin'') (js ''s1'') (js '' hello '') long_sender_message) state_s1
             \<or> Inserted 1 2 = Refused"
    by (simp_all add: message_accepted_def message_valid_def message_input_of_def long_sender_message_def
        len_def isLength_replicate [OF letter_x(2,3)] or_default_def)
  have m: "messages state_s1 = []" by (simp add: state_s1_eq)
  show ?thesis
    using h(1,3) session_s1(1) message_rejected(1) [OF h r(1), of OpenAI "js ''c1''" no_ai]
      message_rejected(2) [OF h r(2), of "js ''c1''"]
    by (simp add: emit_def trim_hello m)
qed

subsection \<open>The reply step\<close>

lemma ai_reply_disabled:
  "(case find_session sid st of None \<Rightarrow> True | Some s \<Rightarrow> \<not> cs_aiEnabled s) \<or> \<not> truthy (apiKey env) \<Longrightarrow>
   ai_reply b sid env st = st"
  by (auto simp: ai_reply_def getSession_def Let_def split: option.splits)

lemma ai_reply_success:
  assumes "find_session sid st = Some s" and "cs_aiEnabled s" and "truthy (apiKey env)"
    and "outcome env = Completion (Some answer)" and "trim answer \<noteq> []"
    and "message_accepted (ai_input sid (trim answer)) st"
    and "replyWrite env = Inserted reply_id reply_at"
  shows "ai_reply b sid env st =
     st\<lparr>messages := messages st @ [build_message (ai_input sid (trim answer)) reply_id reply_at],
        trace := trace st @
          [Emitted (ToRoom (session_room sid)) ''typing:admin'' NoPayload,
           Persisted (build_message (ai_input sid (trim answer)) reply_id reply_at),
           Emitted (ToRoom (session_room sid)) ''message:received''
             (MessageData (aiMessageData sid (build_message (ai_input sid (trim answer)) reply_id reply_at))),
           Emitted (ToRoom (js ''admin'')) ''message:new''
             (MessageData (aiMessageData sid (build_message (ai_input sid (trim answer)) reply_id reply_at))),
           Emitted (ToRoom (session_room sid)) ''typing:admin:stop'' NoPayload]\<rparr>"
proof -
  let ?st1 = "emit (ToRoom (session_room sid)) ''typing:admin'' NoPayload st"
  let ?a = "build_message (ai_input sid (trim answer)) reply_id reply_at"
  from assms(6) have acc: "message_accepted (ai_input sid (trim answer)) ?st1" by simp
  have "send_ai_reply sid (trim answer) (Inserted reply_id reply_at) ?st1 =
        Inr (emit (ToRoom (session_room sid)) ''typing:admin:stop'' NoPayload
              (emit (ToRoom (js ''admin'')) ''message:new'' (MessageData (aiMessageData sid ?a))
                (emit (ToRoom (session_room sid)) ''message:received'' (MessageData (aiMessageData sid ?a))
                   (?st1\<lparr>messages := messages ?st1 @ [?a],
                      trace := trace ?st1 @ [Persisted ?a]\<rparr>))))"
    using createMessage_accepted [OF acc, of reply_id reply_at]
    by (simp add: send_ai_reply_def)
  with assms show ?thesis
    by (simp add: ai_reply_def getSession_def Let_def truthy_Some or_default_def emit_def)
qed

lemma ai_reply_failure:
  assumes "find_session sid st = Some s" and "cs_aiEnabled s" and "truthy (apiKey env)"
    and "outcome env = GeneratorFailed
         \<or> (\<exists>answer. outcome env = Completion (Some answer) \<and> trim answer \<noteq> [] \<and>
                    (\<not> message_accepted (ai_input sid (trim answer)) st \<or> replyWrite env = Refused))
         \<or> (b = Groq \<and> (outcome env = Completion None \<or>
                         (\<exists>answer. outcome env = Completion (Some answer) \<and> trim answer = [])))"
  shows "ai_reply b sid env st =
     st\<lparr>trace := trace st @
          [Emitted (ToRoom (session_room sid)) ''typing:admin'' NoPayload,
           Emitted (ToRoom (session_room sid)) ''typing:admin:stop'' NoPayload]\<rparr>"
proof -
  let ?st1 = "emit (ToRoom (session_room sid)) ''typing:admin'' NoPayload st"
  have rej: "\<And>t. \<not> message_accepted (ai_input sid t) st \<or> replyWrite env = Refused \<Longrightarrow>
                 \<exists>e. send_ai_reply sid t (replyWrite env) ?st1 = Inl e"
  proof -
    fix t assume "\<not> message_accepted (ai_input sid t) st \<or> replyWrite env = Refused"
    then have "\<not> message_accepted (ai_input sid t) ?st1 \<or> replyWrite env = Refused" by simp
    from createMessage_rejected [OF this]
    show "\<exists>e. send_ai_reply sid t (replyWrite env) ?st1 = Inl e"
      by (auto simp: send_ai_reply_def)
  qed
  from assms(4) show ?thesis
  proof (elim disjE exE conjE)
    assume "outcome env = GeneratorFailed"
    with assms(1-3) show ?thesis
      by (simp add: ai_reply_def getSession_def Let_def emit_def)
  next
    fix answer
    assume o: "outcome env = Completion (Some answer)" and t: "trim answer \<noteq> []"
      and r: "\<not> message_accepted (ai_input sid (trim answer)) st"
    from rej [of "trim answer"] r
    obtain e where "send_ai_reply sid (trim answer) (replyWrite env) ?st1 = Inl e" by blast
    with assms(1-3) o t show ?thesis
      by (simp add: ai_reply_def getSession_def Let_def truthy_Some or_default_def emit_def)
  next
    fix answer
    assume o: "outcome env = Completion (Some answer)" and t: "trim answer \<noteq> []"
      and r: "replyWrite env = Refused"
    from rej [of "trim answer"] r
    obtain e where "send_ai_reply sid (trim answer) (replyWrite env) ?st1 = Inl e" by blast
    with assms(1-3) o t show ?thesis
      by (simp add: ai_reply_def getSession_def Let_def truthy_Some or_default_def emit_def)
  next
    assume "b = Groq" and "outcome env = Completion None"
    with assms(1-3) show ?thesis
      by (simp add: ai_reply_def getSession_def Let_def truthy_def emit_def)
  next
    fix answer
    assume "b = Groq" and "outcome env = Completion (Some answer)" and "trim answer = []"
    with assms(1-3) show ?thesis
      by (simp add: ai_reply_def getSession_def Let_def truthy_def emit_def)
  qed
qed

lemma ai_reply_openai_empty:
  assumes "find_session sid st = Some s" and "cs_aiEnabled s" and "truthy (apiKey env)"
    and "outcome env = Completion None \<or> (\<exists>answer. outcome env = Completion (Some answer) \<and> trim answer = [])"
  shows "ai_reply OpenAI sid env st =
     st\<lparr>trace := trace st @ [Emitted (ToRoom (session_room sid)) ''typing:admin'' NoPayload]\<rparr>"
  using assms by (auto simp: ai_reply_def getSession_def Let_def truthy_def emit_def)

lemma message_user_reply_failure:
  assumes "cm_sessionId d = Some sid" and "sid \<noteq> []"
    and "cm_message d = Some m" and "trim m \<noteq> []"
    and "message_accepted (message_input_of User (js ''User'') sid m d) st"
    and "find_session sid st = Some s" and "cs_aiEnabled s" and "truthy (apiKey env)"
    and "outcome env = GeneratorFailed
         \<or> (\<exists>answer. outcome env = Completion (Some answer) \<and> trim answer \<noteq> [] \<and>
                    (\<not> message_accepted (ai_input sid (trim answer)) st \<or> replyWrite env = Refused))
         \<or> (b = Groq \<and> (outcome env = Completion None \<or>
                         (\<exists>answer. outcome env = Completion (Some answer) \<and> trim answer = [])))"
  shows "message_user b c d (Inserted new_id now) env st =
     st\<lparr>messages := messages st @ [build_message (message_input_of User (js ''User'') sid m d) new_id now],
        trace := trace st @
          [Persisted (build_message (message_input_of User (js ''User'') sid m d) new_id now),
           Emitted (ToRoom (js ''admin'')) ''message:new''
             (MessageData (messageData User sid (build_message (message_input_of User (js ''User'') sid m d) new_id now))),
           Emitted (ToSocket c) ''message:sent''
             (MessageData (messageData User sid (build_message (message_input_of User (js ''User'') sid m d) new_id now))),
           Emitted (ToRoom (session_room sid)) ''typing:admin'' NoPayload,
           Emitted (ToRoom (session_room sid)) ''typing:admin:stop'' NoPayload]\<rparr>"
proof -
  let ?u = "build_message (message_input_of User (js ''User'') sid m d) new_id now"
  let ?st3 = "st\<lparr>messages := messages st @ [?u],
          trace := trace st @
            [Persisted ?u,
             Emitted (ToRoom (js ''admin'')) ''message:new'' (MessageData (messageData User sid ?u)),
             Emitted (ToSocket c) ''message:sent'' (MessageData (messageData User sid ?u))]\<rparr>"
  have run: "message_user b c d (Inserted new_id now) env st = ai_reply b sid env ?st3"
    by (rule message_user_accepted [OF assms(1-5)])
  have found: "find_session sid ?st3 = Some s"
    using assms(6) by simp
  have failure: "outcome env = GeneratorFailed
         \<or> (\<exists>answer. outcome env = Completion (Some answer) \<and> trim answer \<noteq> [] \<and>
                    (\<not> message_accepted (ai_input sid (trim answer)) ?st3 \<or> replyWrite env = Refused))
         \<or> (b = Groq \<and> (outcome env = Completion None \<or>
                         (\<exists>answer. outcome env = Completion (Some answer) \<and> trim answer = [])))"
    using assms(9) by (simp only: message_accepted_after_message)
  show ?thesis
    by (simp add: run ai_reply_failure [OF found assms(7,8) failure])
qed

lemma message_user_openai_empty:
  assumes "cm_sessionId d = Some sid" and "sid \<noteq> []"
    and "cm_message d = Some m" and "trim m \<noteq> []"
    and "message_accepted (message_input_of User (js ''User'') sid m d) st"
    and "find_session sid st = Some s" and "cs_aiEnabled s" and "truthy (apiKey env)"
    and "outcome env = Completion None \<or> (\<exists>answer. outcome env = Completion (Some answer) \<and> trim answer = [])"
  shows "message_user OpenAI c d (Inserted new_id now) env st =
     st\<lparr>messages := messages st @ [build_message (message_input_of User (js ''User'') sid m d) new_id now],
        trace := trace st @
          [Persisted (build_message (message_input_of User (js ''User'') sid m d) new_id now),
           Emitted (ToRoom (js ''admin'')) ''message:new''
             (MessageData (messageData User sid (build_message (message_input_of User (js ''User'') sid m d) new_id now))),
           Emitted (ToSocket c) ''message:sent''
             (MessageData (messageData User sid (build_message (message_input_of User (js ''User'') sid m d) new_id now))),
           Emitted (ToRoom (session_room sid)) ''typing:admin'' NoPayload]\<rparr>"
proof -
  let ?u = "build_message (message_input_of User (js ''User'') sid m d) new_id now"
  let ?st3 = "st\<lparr>messages := messages st @ [?u],
          trace := trace st @
            [Persisted ?u,
             Emitted (ToRoom (js ''admin'')) ''message:new'' (MessageData (messageData User sid ?u)),
             Emitted (ToSocket c) ''message:sent'' (MessageData (messageData User sid ?u))]\<rparr>"
  have run: "message_user OpenAI c d (Inserted new_id now) env st = ai_reply OpenAI sid env ?st3"
    by (rule message_user_accepted [OF assms(1-5)])
  have found: "find_session sid ?st3 = Some s"
    using assms(6) by simp
  show ?thesis
    by (simp add: run ai_reply_openai_empty [OF found assms(7,8,9)])
qed

lemma session_s1_ai:
  "find_session (js ''s1'') state_s1_ai =
     Some \<lparr>cs_id = 1, cs_sessionId = js ''s1'', cs_userIp = Some (js ''unknown''),
            cs_userAgent = Some (js ''unknown''), cs_status = Active, cs_aiEnabled = True,
            cs_createdAt = 1, cs_updatedAt = 2\<rparr>"
  by (simp add: find_session_def state_s1_ai_eq)

lemma trim_good_reply: "trim (js '' Hi, how can I help? '') = js ''Hi, how can I help?''"
  by (simp add: evals)

lemma good_reply_accepted:
  "message_accepted (ai_input (js ''s1'') (js ''Hi, how can I help?'')) state_s1_ai"
  by (simp add: message_accepted_def message_valid_def columns_accept_def references_session_def
      ai_input_def column_value_s1 session_s1)
     (simp add: evals)

text \<open>
  C4, as amended. After an accepted user message in a session with automatic replies
  switched on and a credential configured, a reply of the generator that is not empty
  after trimming, whose row the persistence layer accepts and whose insert succeeds, is
  persisted, trimmed, as a message of the same session with author class admin,
  automated, with the author name \<open>AI\<close>. Then it is broadcast as \<^verbatim>\<open>message:received\<close>
  to the session's room and as \<^verbatim>\<open>message:new\<close> to the room \<open>admin\<close>, and then
  \<^verbatim>\<open>typing:admin:stop\<close> goes to the session's room, in that order. Both variants of the
  file behave so.
\<close>

theorem C4_generated_reply_persisted_and_broadcast:
  assumes "cm_sessionId d = Some sid" and "sid \<noteq> []"
    and "cm_message d = Some m" and "trim m \<noteq> []"
    and "message_accepted (message_input_of User (js ''User'') sid m d) st"
    and "find_session sid st = Some s" and "cs_aiEnabled s" and "truthy (apiKey env)"
    and "outcome env = Completion (Some answer)" and "trim answer \<noteq> []"
    and "message_accepted (ai_input sid (trim answer)) st"
    and "replyWrite env = Inserted reply_id reply_at"
  shows "\<exists>u a. messages (message_user b c d (Inserted new_id now) env st) = messages st @ [u, a] \<and>
           msg_id a = reply_id \<and> msg_createdAt a = reply_at \<and>
           msg_senderType a = Admin \<and> msg_isAi a \<and> msg_sender a = js ''AI'' \<and>
           msg_message a = pg_text (trim answer) \<and> msg_sessionId a = msg_sessionId u \<and>
           md_sessionId (aiMessageData sid a) = sid \<and>
           md_senderType (aiMessageData sid a) = Admin \<and> md_isAi (aiMessageData sid a) \<and>
           md_sender (aiMessageData sid a) = js ''AI'' \<and>
           md_message (aiMessageData sid a) = pg_text (trim answer) \<and>
           trace (message_user b c d (Inserted new_id now) env st) =
             trace st @
             [Persisted u,
              Emitted (ToRoom (js ''admin'')) ''message:new'' (MessageData (messageData User sid u)),
              Emitted (ToSocket c) ''message:sent'' (MessageData (messageData User sid u)),
              Emitted (ToRoom (session_room sid)) ''typing:admin'' NoPayload,
              Persisted a,
              Emitted (ToRoom (session_room sid)) ''message:received'' (MessageData (aiMessageData sid a)),
              Emitted (ToRoom (js ''admin'')) ''message:new'' (MessageData (aiMessageData sid a)),
              Emitted (ToRoom (session_room sid)) ''typing:admin:stop'' NoPayload]"
proof -
  let ?u = "build_message (message_input_of User (js ''User'') sid m d) new_id now"
  let ?a = "build_message (ai_input sid (trim answer)) reply_id reply_at"
  let ?st3 = "st\<lparr>messages := messages st @ [?u],
          trace := trace st @
            [Persisted ?u,
             Emitted (ToRoom (js ''admin'')) ''message:new'' (MessageData (messageData User sid ?u)),
             Emitted (ToSocket c) ''message:sent'' (MessageData (messageData User sid ?u))]\<rparr>"
  have run: "message_user b c d (Inserted new_id now) env st = ai_reply b sid env ?st3"
    by (rule message_user_accepted [OF assms(1-5)])
  have found: "find_session sid ?st3 = Some s"
    using assms(6) by simp
  have acc: "message_accepted (ai_input sid (trim answer)) ?st3"
    using assms(11) by simp
  note reply = ai_reply_success [OF found assms(7,8,9,10) acc assms(12), of b]
  have fields: "msg_id ?a = reply_id \<and> msg_createdAt ?a = reply_at \<and>
           msg_senderType ?a = Admin \<and> msg_isAi ?a \<and> msg_sender ?a = js ''AI'' \<and>
           msg_message ?a = pg_text (trim answer) \<and> msg_sessionId ?a = msg_sessionId ?u"
    by (simp add: ai_row_fields) (simp add: build_message_def ai_input_def message_input_of_def)
  have "messages (message_user b c d (Inserted new_id now) env st) = messages st @ [?u, ?a]"
    by (simp add: run reply)
  moreover have "trace (message_user b c d (Inserted new_id now) env st) =
             trace st @
             [Persisted ?u,
              Emitted (ToRoom (js ''admin'')) ''message:new'' (MessageData (messageData User sid ?u)),
              Emitted (ToSocket c) ''message:sent'' (MessageData (messageData User sid ?u)),
              Emitted (ToRoom (session_room sid)) ''typing:admin'' NoPayload,
              Persisted ?a,
              Emitted (ToRoom (session_room sid)) ''message:received'' (MessageData (aiMessageData sid ?a)),
              Emitted (ToRoom (js ''admin'')) ''message:new'' (MessageData (aiMessageData sid ?a)),
              Emitted (ToRoom (session_room sid)) ''typing:admin:stop'' NoPayload]"
    by (simp add: run reply)
  moreover have "md_sessionId (aiMessageData sid ?a) = sid \<and>
           md_senderType (aiMessageData sid ?a) = Admin \<and> md_isAi (aiMessageData sid ?a) \<and>
           md_sender (aiMessageData sid ?a) = js ''AI'' \<and>
           md_message (aiMessageData sid ?a) = pg_text (trim answer)"
    using fields by (simp add: aiMessageData_def)
  ultimately show ?thesis using fields by blast
qed

theorem C4_generated_reply_persisted_and_broadcast_witness:
  "message_accepted (message_input_of User (js ''User'') (js ''s1'') (js '' hello '') hello_message) state_s1_ai \<and>
   map_option cs_aiEnabled (find_session (js ''s1'') state_s1_ai) = Some True \<and>
   truthy (apiKey good_reply) \<and>
   outcome good_reply = Completion (Some (js '' Hi, how can I help? '')) \<and>
   trim (js '' Hi, how can I help? '') = js ''Hi, how can I help?'' \<and>
   message_accepted (ai_input (js ''s1'') (js ''Hi, how can I help?'')) state_s1_ai \<and>
   replyWrite good_reply = Inserted 2 4 \<and>
   (\<exists>u a. messages (message_user Groq (js ''c1'') hello_message (Inserted 1 3) good_reply state_s1_ai) =
             messages state_s1_ai @ [u, a] \<and>
           msg_id a = 2 \<and> msg_createdAt a = 4 \<and>
           msg_senderType a = Admin \<and> msg_isAi a \<and> msg_sender a = js ''AI'' \<and>
           msg_message a = pg_text (js ''Hi, how can I help?'') \<and> msg_sessionId a = msg_sessionId u \<and>
           md_sessionId (aiMessageData (js ''s1'') a) = js ''s1'' \<and>
           md_senderType (aiMessageData (js ''s1'') a) = Admin \<and> md_isAi (aiMessageData (js ''s1'') a) \<and>
           md_sender (aiMessageData (js ''s1'') a) = js ''AI'' \<and>
           md_message (aiMessageData (js ''s1'') a) = pg_text (js ''Hi, how can I help?'') \<and>
           trace (message_user Groq (js ''c1'') hello_message (Inserted 1 3) good_reply state_s1_ai) =
             trace state_s1_ai @
             [Persisted u,
              Emitted (ToRoom (js ''admin'')) ''message:new'' (MessageData (messageData User (js ''s1'') u)),
              Emitted (ToSocket (js ''c1'')) ''message:sent'' (MessageData (messageData User (js ''s1'') u)),
              Emitted (ToRoom (session_room (js ''s1''))) ''typing:admin'' NoPayload,
              Persisted a,
              Emitted (ToRoom (session_room (js ''s1''))) ''message:received'' (MessageData (aiMessageData (js ''s1'') a)),
              Emitted (ToRoom (js ''admin'')) ''message:new'' (MessageData (aiMessageData (js ''s1'') a)),
              Emitted (ToRoom (session_room (js ''s1''))) ''typing:admin:stop'' NoPayload])"
proof -
  have key: "truthy (apiKey good_reply)" by (simp add: good_reply_def truthy_def js_def)
  have out: "outcome good_reply = Completion (Some (js '' Hi, how can I help? ''))"
    by (simp add: good_reply_def)
  have w: "replyWrite good_reply = Inserted 2 4" by (simp add: good_reply_def)
  have t: "trim (js '' Hi, how can I help? '') \<noteq> []"
    by (simp add: trim_good_reply) (simp add: js_def)
  have acc: "message_accepted (ai_input (js ''s1'') (trim (js '' Hi, how can I help? ''))) state_s1_ai"
    by (simp add: trim_good_reply good_reply_accepted)
  note inst = C4_generated_reply_persisted_and_broadcast
               [OF hello_fields hello_accepted(3) session_s1_ai _ key out t acc w,
                where b = Groq and c = "js ''c1''" and new_id = 1 and now = 3]
  show ?thesis
    using inst hello_accepted(3) key out w good_reply_accepted
    by (simp add: session_s1_ai trim_good_reply)
qed

text \<open>
  C4 as stated fails for a reply that the Message model rejects: a text of 5002
  characters is not persisted and not broadcast; the session's room gets
  \<^verbatim>\<open>typing:admin:stop\<close> only.
\<close>

theorem C4_long_reply_counterexample:
  "map_option cs_aiEnabled (find_session (js ''s1'') state_s1_ai) = Some True \<and>
   truthy (apiKey long_reply) \<and>
   outcome long_reply = Completion (Some (replicate 5002 0x61)) \<and>
   replyWrite long_reply = Inserted 2 4 \<and>
   messages (message_user Groq (js ''c1'') hello_message (Inserted 1 3) long_reply state_s1_ai) =
     [build_message (message_input_of User (js ''User'') (js ''s1'') (js '' hello '') hello_message) 1 3] \<and>
   trace (message_user Groq (js ''c1'') hello_message (Inserted 1 3) long_reply state_s1_ai) =
     trace state_s1_ai @
     [Persisted (build_message (message_input_of User (js ''User'') (js ''s1'') (js '' hello '') hello_message) 1 3),
      Emitted (ToRoom (js ''admin'')) ''message:new''
        (MessageData (messageData User (js ''s1'')
           (build_message (message_input_of User (js ''User'') (js ''s1'') (js '' hello '') hello_message) 1 3))),
      Emitted (ToSocket (js ''c1'')) ''message:sent''
        (MessageData (messageData User (js ''s1'')
           (build_message (message_input_of User (js ''User'') (js ''s1'') (js '' hello '') hello_message) 1 3))),
      Emitted (ToRoom (session_room (js ''s1''))) ''typing:admin'' NoPayload,
      Emitted (ToRoom (session_room (js ''s1''))) ''typing:admin:stop'' NoPayload]"
proof -
  have key: "truthy (apiKey long_reply)" by (simp add: long_reply_def truthy_def js_def)
  have out: "outcome long_reply = Completion (Some (replicate 5002 0x61))"
    by (simp add: long_reply_def)
  have w: "replyWrite long_reply = Inserted 2 4" by (simp add: long_reply_def)
  have rej: "\<not> message_accepted (ai_input (js ''s1'') (trim (replicate 5002 0x61))) state_s1_ai"
    by (simp add: message_accepted_def message_valid_def ai_input_def trim_replicate [OF letter_a(1)]
        len_def isLength_replicate [OF letter_a(2,3)])
  have failure: "outcome long_reply = GeneratorFailed
         \<or> (\<exists>answer. outcome long_reply = Completion (Some answer) \<and> trim answer \<noteq> [] \<and>
                    (\<not> message_accepted (ai_input (js ''s1'') (trim answer)) state_s1_ai \<or>
                     replyWrite long_reply = Refused))
         \<or> (Groq = Groq \<and> (outcome long_reply = Completion None \<or>
                         (\<exists>answer. outcome long_reply = Completion (Some answer) \<and> trim answer = [])))"
    using out rej by (simp add: trim_replicate [OF letter_a(1)])
  have n: "messages state_s1_ai = []"
    by (simp add: state_s1_ai_eq)
  show ?thesis
    using key out w
    by (simp add: message_user_reply_failure [OF hello_fields hello_accepted(3) session_s1_ai _ key failure]
        n session_s1_ai)
qed

text \<open>
  C3. When the reply step fails after \<^verbatim>\<open>typing:admin\<close> was sent, the session's room gets
  \<^verbatim>\<open>typing:admin:stop\<close>. The lemmas \<open>message_user_reply_failure\<close> and
  \<open>message_user_openai_empty\<close> above give what the code does: both variants stop the
  indicator when the generator fails and when the reply's row is rejected, and the Groq
  variant also when the text is empty or missing. The OpenAI variant of socket/socket.ts
  does not: with an empty text nothing follows \<^verbatim>\<open>typing:admin\<close>. The theorem runs both
  variants on the same event, a user message answered by an empty completion.
\<close>

theorem C3_openai_empty_reply_leaves_typing_on:
  "trace (message_user OpenAI (js ''c1'') hello_message (Inserted 1 3) empty_reply state_s1_ai) =
     trace state_s1_ai @
     [Persisted (build_message (message_input_of User (js ''User'') (js ''s1'') (js '' hello '') hello_message) 1 3),
      Emitted (ToRoom (js ''admin'')) ''message:new''
        (MessageData (messageData User (js ''s1'')
           (build_message (message_input_of User (js ''User'') (js ''s1'') (js '' hello '') hello_message) 1 3))),
      Emitted (ToSocket (js ''c1'')) ''message:sent''
        (MessageData (messageData User (js ''s1'')
           (build_message (message_input_of User (js ''User'') (js ''s1'') (js '' hello '') hello_message) 1 3))),
      Emitted (ToRoom (js ''session:s1'')) ''typing:admin'' NoPayload]
   \<and> trace (message_user Groq (js ''c1'') hello_message (Inserted 1 3) empty_reply state_s1_ai) =
     trace state_s1_ai @
     [Persisted (build_message (message_input_of User (js ''User'') (js ''s1'') (js '' hello '') hello_message) 1 3),
      Emitted (ToRoom (js ''admin'')) ''message:new''
        (MessageData (messageData User (js ''s1'')
           (build_message (message_input_of User (js ''User'') (js ''s1'') (js '' hello '') hello_message) 1 3))),
      Emitted (ToSocket (js ''c1'')) ''message:sent''
        (MessageData (messageData User (js ''s1'')
           (build_message (message_input_of User (js ''User'') (js ''s1'') (js '' hello '') hello_message) 1 3))),
      Emitted (ToRoom (js ''session:s1'')) ''typing:admin'' NoPayload,
      Emitted (ToRoom (js ''session:s1'')) ''typing:admin:stop'' NoPayload]"
proof -
  have key: "truthy (apiKey empty_reply)" by (simp add: empty_reply_def truthy_def js_def)
  have out: "outcome empty_reply = Completion None \<or>
             (\<exists>answer. outcome empty_reply = Completion (Some answer) \<and> trim answer = [])"
    by (simp add: empty_reply_def trim_def)
  have out': "outcome empty_reply = GeneratorFailed
         \<or> (\<exists>answer. outcome empty_reply = Completion (Some answer) \<and> trim answer \<noteq> [] \<and>
                    (\<not> message_accepted (ai_input (js ''s1'') (trim answer)) state_s1_ai \<or>
                     replyWrite empty_reply = Refused))
         \<or> (Groq = Groq \<and> (outcome empty_reply = Completion None \<or>
                         (\<exists>answer. outcome empty_reply = Completion (Some answer) \<and> trim answer = [])))"
    using out by simp
  have room: "session_room (js ''s1'') = js ''session:s1''"
    by (simp add: session_room_def js_def)
  show ?thesis
    by (simp add: message_user_openai_empty [OF hello_fields hello_accepted(3) session_s1_ai _ key out]
        message_user_reply_failure [OF hello_fields hello_accepted(3) session_s1_ai _ key out']
        room)
qed

subsection \<open>The author name of a message without one\<close>

lemma nameless_accepted:
  "message_accepted (message_input_of User (js ''User'') (js ''s1'') (js '' hello '') nameless_message) state_s1"
  "message_accepted (message_input_of Admin (js ''Admin'') (js ''s1'') (js '' hello '') nameless_message) state_s1"
  by (simp_all add: message_accepted_def message_valid_def columns_accept_def references_session_def
      message_input_of_def nameless_message_def column_value_s1 session_s1)
     (simp_all add: evals)

text \<open>
  C9, as amended. A \<^verbatim>\<open>message:user\<close> or \<^verbatim>\<open>message:admin\<close> event that passes the
  handler's check of session id and body, carries a missing or empty sender name, and
  whose row the persistence layer accepts and whose insert succeeds, is persisted and
  broadcast with the author name \<open>User\<close> resp. \<open>Admin\<close>, in the row and in the payload
  of both emitted events.
\<close>

theorem C9_missing_sender_name_defaults:
  assumes "cm_sessionId d = Some sid" and "sid \<noteq> []"
    and "cm_message d = Some m" and "trim m \<noteq> []"
    and "\<not> truthy (cm_sender d)"
  shows "(message_accepted (message_input_of User (js ''User'') sid m d) st \<longrightarrow>
          (\<exists>u reply_effects.
             u \<in> set (messages (message_user b c d (Inserted new_id now) env st)) \<and>
             msg_sender u = js ''User'' \<and> msg_senderType u = User \<and>
             md_sender (messageData User sid u) = js ''User'' \<and>
             trace (message_user b c d (Inserted new_id now) env st) =
               trace st @
               [Persisted u,
                Emitted (ToRoom (js ''admin'')) ''message:new'' (MessageData (messageData User sid u)),
                Emitted (ToSocket c) ''message:sent'' (MessageData (messageData User sid u))]
               @ reply_effects))
       \<and> (message_accepted (message_input_of Admin (js ''Admin'') sid m d) st \<longrightarrow>
          (\<exists>a. a \<in> set (messages (message_admin c d (Inserted new_id now) st)) \<and>
             msg_sender a = js ''Admin'' \<and> msg_senderType a = Admin \<and>
             md_sender (messageData Admin sid a) = js ''Admin'' \<and>
             trace (message_admin c d (Inserted new_id now) st) =
               trace st @
               [Persisted a,
                Emitted (ToRoom (session_room sid)) ''message:received'' (MessageData (messageData Admin sid a)),
                Emitted (ToSocket c) ''message:sent'' (MessageData (messageData Admin sid a))]))"
proof (intro conjI impI)
  assume acc: "message_accepted (message_input_of User (js ''User'') sid m d) st"
  let ?u = "build_message (message_input_of User (js ''User'') sid m d) new_id now"
  let ?st3 = "st\<lparr>messages := messages st @ [?u],
          trace := trace st @
            [Persisted ?u,
             Emitted (ToRoom (js ''admin'')) ''message:new'' (MessageData (messageData User sid ?u)),
             Emitted (ToSocket c) ''message:sent'' (MessageData (messageData User sid ?u))]\<rparr>"
  have run: "message_user b c d (Inserted new_id now) env st = ai_reply b sid env ?st3"
    by (rule message_user_accepted [OF assms(1-4) acc])
  obtain ms es where eff:
    "messages (ai_reply b sid env ?st3) = messages ?st3 @ ms"
    "trace (ai_reply b sid env ?st3) = trace ?st3 @ es"
    using ai_reply_effects [of b sid env ?st3] by blast
  have fields: "msg_sender ?u = js ''User'' \<and> msg_senderType ?u = User \<and>
                md_sender (messageData User sid ?u) = js ''User''"
    using assms(5)
    by (simp add: build_message_def message_input_of_def messageData_def or_default_falsy
        column_value_literals)
  have "?u \<in> set (messages (message_user b c d (Inserted new_id now) env st))"
    by (simp add: run eff)
  moreover have "trace (message_user b c d (Inserted new_id now) env st) =
               trace st @
               [Persisted ?u,
                Emitted (ToRoom (js ''admin'')) ''message:new'' (MessageData (messageData User sid ?u)),
                Emitted (ToSocket c) ''message:sent'' (MessageData (messageData User sid ?u))] @ es"
    by (simp add: run eff)
  ultimately show "\<exists>u reply_effects.
             u \<in> set (messages (message_user b c d (Inserted new_id now) env st)) \<and>
             msg_sender u = js ''User'' \<and> msg_senderType u = User \<and>
             md_sender (messageData User sid u) = js ''User'' \<and>
             trace (message_user b c d (Inserted new_id now) env st) =
               trace st @
               [Persisted u,
                Emitted (ToRoom (js ''admin'')) ''message:new'' (MessageData (messageData User sid u)),
                Emitted (ToSocket c) ''message:sent'' (MessageData (messageData User sid u))]
               @ reply_effects"
    using fields by blast
next
  assume acc: "message_accepted (message_input_of Admin (js ''Admin'') sid m d) st"
  let ?a = "build_message (message_input_of Admin (js ''Admin'') sid m d) new_id now"
  have fields: "msg_sender ?a = js ''Admin'' \<and> msg_senderType ?a = Admin \<and>
                md_sender (messageData Admin sid ?a) = js ''Admin''"
    using assms(5)
    by (simp add: build_message_def message_input_of_def messageData_def or_default_falsy
        column_value_literals)
  have "?a \<in> set (messages (message_admin c d (Inserted new_id now) st))"
    by (simp add: message_admin_accepted [OF assms(1-4) acc])
  moreover have "trace (message_admin c d (Inserted new_id now) st) =
               trace st @
               [Persisted ?a,
                Emitted (ToRoom (session_room sid)) ''message:received'' (MessageData (messageData Admin sid ?a)),
                Emitted (ToSocket c) ''message:sent'' (MessageData (messageData Admin sid ?a))]"
    by (simp add: message_admin_accepted [OF assms(1-4) acc])
  ultimately show "\<exists>a. a \<in> set (messages (message_admin c d (Inserted new_id now) st)) \<and>
             msg_sender a = js ''Admin'' \<and> msg_senderType a = Admin \<and>
             md_sender (messageData Admin sid a) = js ''Admin'' \<and>
             trace (message_admin c d (Inserted new_id now) st) =
               trace st @
               [Persisted a,
                Emitted (ToRoom (session_room sid)) ''message:received'' (MessageData (messageData Admin sid a)),
                Emitted (ToSocket c) ''message:sent'' (MessageData (messageData Admin sid a))]"
    using fields by blast
qed

theorem C9_missing_sender_name_defaults_witness:
  "cm_sender nameless_message = Some [] \<and>
   message_accepted (message_input_of User (js ''User'') (js ''s1'') (js '' hello '') nameless_message) state_s1 \<and>
   message_accepted (message_input_of Admin (js ''Admin'') (js ''s1'') (js '' hello '') nameless_message) state_s1 \<and>
   (\<exists>u reply_effects.
      u \<in> set (messages (message_user OpenAI (js ''c1'') nameless_message (Inserted 1 2) no_ai state_s1)) \<and>
      msg_sender u = js ''User'' \<and> msg_senderType u = User \<and>
      md_sender (messageData User (js ''s1'') u) = js ''User'' \<and>
      trace (message_user OpenAI (js ''c1'') nameless_message (Inserted 1 2) no_ai state_s1) =
        trace state_s1 @
        [Persisted u,
         Emitted (ToRoom (js ''admin'')) ''message:new'' (MessageData (messageData User (js ''s1'') u)),
         Emitted (ToSocket (js ''c1'')) ''message:sent'' (MessageData (messageData User (js ''s1'') u))]
        @ reply_effects) \<and>
   (\<exists>a. a \<in> set (messages (message_admin (js ''c1'') nameless_message (Inserted 1 2) state_s1)) \<and>
      msg_sender a = js ''Admin'' \<and> msg_senderType a = Admin \<and>
      md_sender (messageData Admin (js ''s1'') a) = js ''Admin'' \<and>
      trace (message_admin (js ''c1'') nameless_message (Inserted 1 2) state_s1) =
        trace state_s1 @
        [Persisted a,
         Emitted (ToRoom (session_room (js ''s1''))) ''message:received'' (MessageData (messageData Admin (js ''s1'') a)),
         Emitted (ToSocket (js ''c1'')) ''message:sent'' (MessageData (messageData Admin (js ''s1'') a))])"
proof -
  have h: "cm_sessionId nameless_message = Some (js ''s1'')" "js ''s1'' \<noteq> []"
    "cm_message nameless_message = Some (js '' hello '')" "trim (js '' hello '') \<noteq> []"
    "\<not> truthy (cm_sender nameless_message)"
    using hello_fields(2,4) by (simp_all add: nameless_message_def truthy_def)
  note inst = C9_missing_sender_name_defaults
                [OF h, where st = state_s1 and new_id = 1 and now = 2 and b = OpenAI
                   and c = "js ''c1''" and env = no_ai]
  have s: "cm_sender nameless_message = Some []" by (simp add: nameless_message_def)
  show ?thesis
    using inst nameless_accepted s by simp
qed

text \<open>
  C9 as stated fails where the write is rejected: an event without sender name whose
  body has 5002 characters passes the handler's check, the validator \<^verbatim>\<open>len: [1, 5001]\<close>
  rejects the row, and the message is neither persisted nor broadcast.
\<close>

theorem C9_long_body_counterexample:
  "cm_sender long_body_message = None \<and>
   cm_sessionId long_body_message = Some (js ''s1'') \<and>
   map_option trim (cm_message long_body_message) = Some (replicate 5002 0x61) \<and>
   find_session (js ''s1'') state_s1 \<noteq> None \<and>
   messages (message_user OpenAI (js ''c1'') long_body_message (Inserted 1 2) no_ai state_s1) = [] \<and>
   trace (message_user OpenAI (js ''c1'') long_body_message (Inserted 1 2) no_ai state_s1) =
     trace state_s1 @ [Emitted (ToSocket (js ''c1'')) ''error'' (ErrorMessage ''Failed to send message'')] \<and>
   messages (message_admin (js ''c1'') long_body_message (Inserted 1 2) state_s1) = [] \<and>
   trace (message_admin (js ''c1'') long_body_message (Inserted 1 2) state_s1) =
     trace state_s1 @ [Emitted (ToSocket (js ''c1'')) ''error'' (ErrorMessage ''Failed to send message'')]"
proof -
  have h: "cm_sessionId long_body_message = Some (js ''s1'')" "js ''s1'' \<noteq> []"
    "cm_message long_body_message = Some (replicate 5002 0x61)"
    "trim (replicate 5002 0x61) \<noteq> []"
    using hello_fields(2) by (simp_all add: long_body_message_def trim_replicate [OF letter_a(1)])
  have r: "\<not> message_accepted (message_input_of User (js ''User'') (js ''s1'') (replicate 5002 0x61) long_body_message) state_s1
             \<or> Inserted 1 2 = Refused"
    "\<not> message_accepted (message_input_of Admin (js ''Admin'') (js ''s1'') (replicate 5002 0x61) long_body_message) state_s1
             \<or> Inserted 1 2 = Refused"
    by (simp_all add: message_accepted_def message_valid_def message_input_of_def len_def
        trim_replicate [OF letter_a(1)] isLength_replicate [OF letter_a(2,3)])
  have m: "messages state_s1 = []" by (simp add: state_s1_eq)
  have s: "cm_sender long_body_message = None" by (simp add: long_body_message_def)
  show ?thesis
    using h(1,3) s session_s1(1) message_rejected(1) [OF h r(1), of OpenAI "js ''c1''" no_ai]
      message_rejected(2) [OF h r(2), of "js ''c1''"]
    by (simp add: emit_def trim_replicate [OF letter_a(1)] m)
qed

subsection \<open>The attachment of a message\<close>

lemma attachment_accepted:
  "message_accepted (message_input_of User (js ''User'') (js ''s1'') (js ''see this'') attachment_message) state_s1"
  "message_accepted (message_input_of Admin (js ''Admin'') (js ''s1'') (js ''see this'') attachment_message) state_s1"
  "message_accepted (message_input_of User (js ''User'') (js ''s1'') (js ''see this'') url_only_message) state_s1"
  by (simp_all add: message_accepted_def message_valid_def columns_accept_def references_session_def
      message_input_of_def attachment_message_def url_only_message_def column_value_s1 session_s1)
     (simp_all add: evals)

lemma attachment_present:
  "(map_option f (or_null v) \<noteq> None) = truthy v"
  by (cases v) (simp_all add: or_null_def truthy_def)

lemma attachment_plain:
  "v = Some s \<Longrightarrow> s \<noteq> [] \<Longrightarrow> pg_text s = s \<Longrightarrow> length s \<le> n \<Longrightarrow>
   map_option (column_value n) (or_null v) = Some s"
proof -
  assume v: "v = Some s" "s \<noteq> []" and plain: "pg_text s = s" and width: "length s \<le> n"
  from width have "chars s \<le> n" by (simp add: chars_def)
  with v plain show ?thesis
    by (simp add: or_null_def truthy_def column_value_def varchar_value_def)
qed

text \<open>
  C8, as amended. A message handler stores the two attachment fields of its event each
  on its own. The row has a URL exactly when the event carries one that is not empty, and
  a media type exactly when the event carries one that is not empty; a value that is
  plain text (no NUL, no surrogate without partner) and fits its column (1024 resp. 100
  characters) is stored as it is. The rows the reply step adds have neither.
\<close>

theorem C8_attachment_fields_stored_independently:
  assumes "cm_sessionId d = Some sid" and "sid \<noteq> []"
    and "cm_message d = Some m" and "trim m \<noteq> []"
  shows "(message_accepted (message_input_of User (js ''User'') sid m d) st \<longrightarrow>
          (let u = build_message (message_input_of User (js ''User'') sid m d) new_id now
           in (\<exists>rows. messages (message_user b c d (Inserted new_id now) env st) = messages st @ [u] @ rows \<and>
                      list_all automated_row rows) \<and>
              (msg_attachmentUrl u \<noteq> None) = truthy (cm_attachmentUrl d) \<and>
              (msg_attachmentType u \<noteq> None) = truthy (cm_attachmentType d) \<and>
              (cm_attachmentUrl d = Some url \<and> url \<noteq> [] \<and> pg_text url = url \<and> length url \<le> 1024 \<longrightarrow>
                 msg_attachmentUrl u = Some url) \<and>
              (cm_attachmentType d = Some media \<and> media \<noteq> [] \<and> pg_text media = media \<and> length media \<le> 100 \<longrightarrow>
                 msg_attachmentType u = Some media)))
       \<and> (message_accepted (message_input_of Admin (js ''Admin'') sid m d) st \<longrightarrow>
          (let a = build_message (message_input_of Admin (js ''Admin'') sid m d) new_id now
           in messages (message_admin c d (Inserted new_id now) st) = messages st @ [a] \<and>
              (msg_attachmentUrl a \<noteq> None) = truthy (cm_attachmentUrl d) \<and>
              (msg_attachmentType a \<noteq> None) = truthy (cm_attachmentType d) \<and>
              (cm_attachmentUrl d = Some url \<and> url \<noteq> [] \<and> pg_text url = url \<and> length url \<le> 1024 \<longrightarrow>
                 msg_attachmentUrl a = Some url) \<and>
              (cm_attachmentType d = Some media \<and> media \<noteq> [] \<and> pg_text media = media \<and> length media \<le> 100 \<longrightarrow>
                 msg_attachmentType a = Some media)))"
proof (intro conjI impI)
  assume acc: "message_accepted (message_input_of User (js ''User'') sid m d) st"
  let ?u = "build_message (message_input_of User (js ''User'') sid m d) new_id now"
  let ?st3 = "st\<lparr>messages := messages st @ [?u],
          trace := trace st @
            [Persisted ?u,
             Emitted (ToRoom (js ''admin'')) ''message:new'' (MessageData (messageData User sid ?u)),
             Emitted (ToSocket c) ''message:sent'' (MessageData (messageData User sid ?u))]\<rparr>"
  have run: "message_user b c d (Inserted new_id now) env st = ai_reply b sid env ?st3"
    by (rule message_user_accepted [OF assms acc])
  obtain ms where "messages (ai_reply b sid env ?st3) = messages ?st3 @ ms" "list_all automated_row ms"
    using ai_reply_effects [of b sid env ?st3] by blast
  then have rows: "\<exists>rows. messages (message_user b c d (Inserted new_id now) env st) = messages st @ [?u] @ rows \<and>
                      list_all automated_row rows"
    using run by auto
  have url: "msg_attachmentUrl ?u = map_option (column_value 1024) (or_null (cm_attachmentUrl d))"
    and media: "msg_attachmentType ?u = map_option (column_value 100) (or_null (cm_attachmentType d))"
    by (simp_all add: build_message_def message_input_of_def)
  show "let u = ?u
           in (\<exists>rows. messages (message_user b c d (Inserted new_id now) env st) = messages st @ [u] @ rows \<and>
                      list_all automated_row rows) \<and>
              (msg_attachmentUrl u \<noteq> None) = truthy (cm_attachmentUrl d) \<and>
              (msg_attachmentType u \<noteq> None) = truthy (cm_attachmentType d) \<and>
              (cm_attachmentUrl d = Some url \<and> url \<noteq> [] \<and> pg_text url = url \<and> length url \<le> 1024 \<longrightarrow>
                 msg_attachmentUrl u = Some url) \<and>
              (cm_attachmentType d = Some media \<and> media \<noteq> [] \<and> pg_text media = media \<and> length media \<le> 100 \<longrightarrow>
                 msg_attachmentType u = Some media)"
    unfolding Let_def url media attachment_present
    using rows attachment_plain [of "cm_attachmentUrl d" url 1024]
      attachment_plain [of "cm_attachmentType d" media 100]
    by blast
next
  assume acc: "message_accepted (message_input_of Admin (js ''Admin'') sid m d) st"
  let ?a = "build_message (message_input_of Admin (js ''Admin'') sid m d) new_id now"
  have rows: "messages (message_admin c d (Inserted new_id now) st) = messages st @ [?a]"
    by (simp add: message_admin_accepted [OF assms acc])
  have url: "msg_attachmentUrl ?a = map_option (column_value 1024) (or_null (cm_attachmentUrl d))"
    and media: "msg_attachmentType ?a = map_option (column_value 100) (or_null (cm_attachmentType d))"
    by (simp_all add: build_message_def message_input_of_def)
  show "let a = ?a
           in messages (message_admin c d (Inserted new_id now) st) = messages st @ [a] \<and>
              (msg_attachmentUrl a \<noteq> None) = truthy (cm_attachmentUrl d) \<and>
              (msg_attachmentType a \<noteq> None) = truthy (cm_attachmentType d) \<and>
              (cm_attachmentUrl d = Some url \<and> url \<noteq> [] \<and> pg_text url = url \<and> length url \<le> 1024 \<longrightarrow>
                 msg_attachmentUrl a = Some url) \<and>
              (cm_attachmentType d = Some media \<and> media \<noteq> [] \<and> pg_text media = media \<and> length media \<le> 100 \<longrightarrow>
                 msg_attachmentType a = Some media)"
    unfolding Let_def url media attachment_present
    using rows attachment_plain [of "cm_attachmentUrl d" url 1024]
      attachment_plain [of "cm_attachmentType d" media 100]
    by blast
qed

theorem C8_attachment_fields_stored_independently_witness:
  "cm_sessionId attachment_message = Some (js ''s1'') \<and>
   cm_message attachment_message = Some (js ''see this'') \<and> trim (js ''see this'') \<noteq> [] \<and>
   message_accepted (message_input_of User (js ''User'') (js ''s1'') (js ''see this'') attachment_message) state_s1 \<and>
   message_accepted (message_input_of Admin (js ''Admin'') (js ''s1'') (js ''see this'') attachment_message) state_s1 \<and>
   cm_attachmentUrl attachment_message = Some (js ''http://h/uploads/f1'') \<and>
   pg_text (js ''http://h/uploads/f1'') = js ''http://h/uploads/f1'' \<and>
   cm_attachmentType attachment_message = Some (js ''image/png'') \<and>
   pg_text (js ''image/png'') = js ''image/png'' \<and>
   (\<exists>rows. messages (message_user OpenAI (js ''c1'') attachment_message (Inserted 1 2) no_ai state_s1) =
              messages state_s1 @
              [build_message (message_input_of User (js ''User'') (js ''s1'') (js ''see this'') attachment_message) 1 2]
              @ rows \<and>
            list_all automated_row rows) \<and>
   msg_attachmentUrl (build_message (message_input_of User (js ''User'') (js ''s1'') (js ''see this'') attachment_message) 1 2)
     = Some (js ''http://h/uploads/f1'') \<and>
   msg_attachmentType (build_message (message_input_of User (js ''User'') (js ''s1'') (js ''see this'') attachment_message) 1 2)
     = Some (js ''image/png'') \<and>
   messages (message_admin (js ''c1'') attachment_message (Inserted 1 2) state_s1) =
     messages state_s1 @
     [build_message (message_input_of Admin (js ''Admin'') (js ''s1'') (js ''see this'') attachment_message) 1 2] \<and>
   msg_attachmentUrl (build_message (message_input_of Admin (js ''Admin'') (js ''s1'') (js ''see this'') attachment_message) 1 2)
     = Some (js ''http://h/uploads/f1'') \<and>
   msg_attachmentType (build_message (message_input_of Admin (js ''Admin'') (js ''s1'') (js ''see this'') attachment_message) 1 2)
     = Some (js ''image/png'')"
proof -
  have t: "trim (js ''see this'') \<noteq> []" by (simp add: evals)
  have h: "cm_sessionId attachment_message = Some (js ''s1'')" "js ''s1'' \<noteq> []"
    "cm_message attachment_message = Some (js ''see this'')" "trim (js ''see this'') \<noteq> []"
    using hello_fields(2) t by (simp_all add: attachment_message_def)
  have v: "cm_attachmentUrl attachment_message = Some (js ''http://h/uploads/f1'')"
    "cm_attachmentType attachment_message = Some (js ''image/png'')"
    by (simp_all add: attachment_message_def)
  have p: "pg_text (js ''http://h/uploads/f1'') = js ''http://h/uploads/f1''"
    "pg_text (js ''image/png'') = js ''image/png''"
    "js ''http://h/uploads/f1'' \<noteq> []" "js ''image/png'' \<noteq> []"
    "length (js ''http://h/uploads/f1'') \<le> 1024" "length (js ''image/png'') \<le> 100"
    by (simp_all add: evals)
  note inst = C8_attachment_fields_stored_independently
                [OF h, where st = state_s1 and new_id = 1 and now = 2 and b = OpenAI
                   and c = "js ''c1''" and env = no_ai
                   and url = "js ''http://h/uploads/f1''" and media = "js ''image/png''"]
  show ?thesis
    using inst h(1,3,4) attachment_accepted(1,2) v p by (simp add: Let_def)
qed

text \<open>
  C8 as stated fails: nothing relates the two fields. A \<^verbatim>\<open>message:user\<close> event with an
  attachment URL and no media type is stored with the URL set and the type absent.
\<close>

theorem C8_url_without_type_counterexample:
  "cm_attachmentUrl url_only_message = Some (js ''http://h/uploads/f1'') \<and>
   cm_attachmentType url_only_message = None \<and>
   map msg_attachmentUrl (messages (message_user OpenAI (js ''c1'') url_only_message (Inserted 1 2) no_ai state_s1)) =
     [Some (js ''http://h/uploads/f1'')] \<and>
   map msg_attachmentType (messages (message_user OpenAI (js ''c1'') url_only_message (Inserted 1 2) no_ai state_s1)) =
     [None]"
proof -
  have t: "trim (js ''see this'') \<noteq> []" by (simp add: evals)
  have h: "cm_sessionId url_only_message = Some (js ''s1'')" "js ''s1'' \<noteq> []"
    "cm_message url_only_message = Some (js ''see this'')" "trim (js ''see this'') \<noteq> []"
    using hello_fields(2) t by (simp_all add: url_only_message_def)
  have off: "(case find_session (js ''s1'') st of None \<Rightarrow> True | Some s \<Rightarrow> \<not> cs_aiEnabled s) \<or> \<not> truthy (apiKey no_ai)" for st
    by (simp add: no_ai_def truthy_def)
  have v: "cm_attachmentUrl url_only_message = Some (js ''http://h/uploads/f1'')"
    "cm_attachmentType url_only_message = None"
    by (simp_all add: url_only_message_def)
  have p: "pg_text (js ''http://h/uploads/f1'') = js ''http://h/uploads/f1''"
    "js ''http://h/uploads/f1'' \<noteq> []" "length (js ''http://h/uploads/f1'') \<le> 1024"
    by (simp_all add: evals)
  have fields: "msg_attachmentUrl (build_message (message_input_of User (js ''User'') (js ''s1'') (js ''see this'') url_only_message) n t)
          = Some (js ''http://h/uploads/f1'')"
       "msg_attachmentType (build_message (message_input_of User (js ''User'') (js ''s1'') (js ''see this'') url_only_message) n t)
          = None" for n t
    using attachment_plain [OF v(1) p(2,1,3)]
    by (simp_all add: build_message_def message_input_of_def v or_null_def truthy_def)
  have "messages (message_user OpenAI (js ''c1'') url_only_message (Inserted 1 2) no_ai state_s1) =
          messages state_s1 @
          [build_message (message_input_of User (js ''User'') (js ''s1'') (js ''see this'') url_only_message) 1 2]"
    by (simp add: message_user_accepted [OF h attachment_accepted(3)] ai_reply_disabled [OF off])
  moreover have "messages state_s1 = []" by (simp add: state_s1_eq)
  ultimately show ?thesis
    using v by (simp add: fields)
qed

subsection \<open>Disconnect\<close>

text \<open>
  In any state the handler of \<^verbatim>\<open>disconnect\<close> writes nothing: a room that is still among
  \<^verbatim>\<open>socket.rooms\<close> still has the socket itself among its members, so the test
  \<^verbatim>\<open>roomSockets.length === 0\<close> fails for it; and once the platform has taken the socket
  out of its rooms, which it does before it fires \<^verbatim>\<open>disconnect\<close>, the loop has no room
  to visit.
\<close>

lemma fetchSockets_member: "(c, room) \<in> set (rooms st) \<Longrightarrow> fetchSockets room st \<noteq> []"
  by (force simp: fetchSockets_def filter_empty_conv)

lemma disconnect_rooms_occupied:
  "\<forall>room\<in>set rs. fetchSockets room st \<noteq> [] \<Longrightarrow> disconnect_rooms rs now st = st"
  by (induction rs) (simp_all add: Let_def)

lemma disconnect_handler_no_write: "disconnect_handler c now st = st"
proof -
  have "\<forall>room\<in>set (socket_rooms c st). fetchSockets room st \<noteq> []"
    by (auto simp: socket_rooms_def intro!: fetchSockets_member [of c])
  then show ?thesis
    by (simp add: disconnect_handler_def disconnect_rooms_occupied)
qed

lemma socket_rooms_leave_all: "socket_rooms c (leave_all c st) = []"
  by (simp add: socket_rooms_def leave_all_def filter_empty_conv)

lemma step_Disconnect: "step b st (Disconnect c now) = leave_all c st"
  by (simp add: disconnect_handler_no_write)

lemma run_snoc: "run b (es @ [e]) = step b (run b es) e"
  by (simp add: run_def)

lemma two_tabs_eq:
  "run OpenAI two_tabs =
     \<lparr>sessions = [\<lparr>cs_id = 1, cs_sessionId = js ''s1'', cs_userIp = Some (js ''unknown''),
                   cs_userAgent = Some (js ''unknown''), cs_status = Active, cs_aiEnabled = False,
                   cs_createdAt = 1, cs_updatedAt = 1\<rparr>],
      messages = [],
      rooms = [(js ''c1'', js ''c1''), (js ''c1'', js ''session:s1''),
               (js ''c2'', js ''c2''), (js ''c2'', js ''session:s1'')],
      trace = [Emitted (ToSocket (js ''c1'')) ''user:connected'' (SessionIdOnly (js ''s1'')),
               Emitted (ToSocket (js ''c2'')) ''user:connected'' (SessionIdOnly (js ''s1''))]\<rparr>"
  by (simp add: two_tabs_def run_def init_def connect_s1_def user_connect_def socket_join_def
      createOrUpdateSession_def find_session_def session_accepted_def emit_def session_room_def
      Let_def instance_update_def evals)

text \<open>
  C5. On disconnect the session of a room that has become empty should be set to
  inactive. The code does not do it. Two sockets join the room of session \<open>s1\<close>. When
  the first disconnects, the other remains and the status stays active, as the claim
  says. When the second disconnects too, the room is empty and the status is still
  active, where the claim says inactive.
\<close>

theorem C5_disconnect_leaves_session_active:
  "fetchSockets (js ''session:s1'') (run OpenAI (two_tabs @ [Disconnect (js ''c1'') 3])) = [js ''c2''] \<and>
   status_of (js ''s1'') (run OpenAI (two_tabs @ [Disconnect (js ''c1'') 3])) = Some Active \<and>
   fetchSockets (js ''session:s1'')
     (run OpenAI (two_tabs @ [Disconnect (js ''c1'') 3, Disconnect (js ''c2'') 4])) = [] \<and>
   status_of (js ''s1'')
     (run OpenAI (two_tabs @ [Disconnect (js ''c1'') 3, Disconnect (js ''c2'') 4])) = Some Active"
proof -
  have one: "run OpenAI (two_tabs @ [Disconnect (js ''c1'') 3]) = leave_all (js ''c1'') (run OpenAI two_tabs)"
    by (simp only: run_snoc step_Disconnect)
  have "run OpenAI (two_tabs @ [Disconnect (js ''c1'') 3, Disconnect (js ''c2'') 4]) =
        step OpenAI (run OpenAI (two_tabs @ [Disconnect (js ''c1'') 3])) (Disconnect (js ''c2'') 4)"
    using run_snoc [of OpenAI "two_tabs @ [Disconnect (js ''c1'') 3]" "Disconnect (js ''c2'') 4"] by simp
  then have two: "run OpenAI (two_tabs @ [Disconnect (js ''c1'') 3, Disconnect (js ''c2'') 4]) =
        leave_all (js ''c2'') (leave_all (js ''c1'') (run OpenAI two_tabs))"
    by (simp only: one step_Disconnect)
  show ?thesis
    unfolding one two two_tabs_eq
    by (simp add: leave_all_def fetchSockets_def status_of_def find_session_def js_def)
qed

subsection \<open>The status of a session\<close>

lemma find_update_found:
  "(\<And>r. key (f r) = key r) \<Longrightarrow>
   find (\<lambda>r. key r = k) (update_found (\<lambda>r. key r = k') f xs) =
     (if k = k' then map_option f (find (\<lambda>r. key r = k) xs) else find (\<lambda>r. key r = k) xs)"
  by (induction xs) auto


lemma instance_update_fields:
  "cs_sessionId (instance_update now f r) = cs_sessionId (f r)"
  "cs_status (instance_update now f r) = cs_status (f r)"
  "cs_id (instance_update now f r) = cs_id (f r)"
  "cs_createdAt (instance_update now f r) = cs_createdAt (f r)"
  "cs_userIp (instance_update now f r) = cs_userIp (f r)"
  "cs_userAgent (instance_update now f r) = cs_userAgent (f r)"
  "cs_aiEnabled (instance_update now f r) = cs_aiEnabled (f r)"
  by (auto simp: instance_update_def)

lemma status_of_emit [simp]: "status_of sid (emit t ev p st) = status_of sid st"
  by (simp add: status_of_def)

lemma status_of_socket_join [simp]: "status_of sid (socket_join c room st) = status_of sid st"
  by (simp add: status_of_def find_session_def socket_join_def)

lemma status_of_leave_all [simp]: "status_of sid (leave_all c st) = status_of sid st"
  by (simp add: status_of_def find_session_def leave_all_def)

lemma status_of_createMessage:
  "createMessage mi verdict st = Inr (row, st') \<Longrightarrow> status_of sid st' = status_of sid st"
  by (auto simp: createMessage_def Let_def status_of_def find_session_def
      split: if_splits db_verdict.splits)

lemma status_of_ai_reply [simp]: "status_of sid (ai_reply b sid' env st) = status_of sid st"
  using ai_reply_effects [of b sid' env st] by (auto simp: status_of_def find_session_def)

lemma status_of_message_user [simp]: "status_of sid (message_user b c d verdict env st) = status_of sid st"
  by (auto simp: message_user_def invalid_message_data_def split: option.splits sum.splits
      dest: status_of_createMessage)

lemma status_of_message_admin [simp]: "status_of sid (message_admin c d verdict st) = status_of sid st"
  by (auto simp: message_admin_def invalid_message_data_def split: option.splits sum.splits
      dest: status_of_createMessage)

lemma status_of_typing [simp]:
  "status_of sid (typing_start c d st) = status_of sid st"
  "status_of sid (typing_stop c d st) = status_of sid st"
  by (simp_all add: typing_start_def typing_stop_def)

lemma status_of_toggle [simp]:
  "status_of sid (toggleAiForSession k enabled now st) = status_of sid st"
proof (cases "find_session k st")
  case None
  then show ?thesis by (simp add: toggleAiForSession_def)
next
  case (Some session)
  have key: "\<And>r. cs_sessionId (instance_update now (\<lambda>r. r\<lparr>cs_aiEnabled := enabled\<rparr>) r) = cs_sessionId r"
    by (simp add: instance_update_fields)
  show ?thesis
    using Some find_update_found [of cs_sessionId "instance_update now (\<lambda>r. r\<lparr>cs_aiEnabled := enabled\<rparr>)", OF key, of sid k "sessions st"]
    by (cases "find (\<lambda>r. cs_sessionId r = sid) (sessions st)")
       (auto simp: toggleAiForSession_def status_of_def find_session_def instance_update_fields)
qed
















subsection \<open>Connecting twice\<close>

lemma length_update_found [simp]: "length (update_found P f xs) = length xs"
  by (induction xs) auto






end
